theory Spec2Isabelle
  imports Main
begin

section \<open>Strings and JavaScript values\<close>

text \<open>
  A JavaScript string is modelled as a \<^typ>\<open>string\<close>: a list of code units, here
  restricted to the range 0..255. A value that may be \<open>null\<close> or \<open>undefined\<close>
  (a query parameter that is not there, a header that was not sent, an environment
  variable that is not set) is a \<^typ>\<open>string option\<close>.
\<close>

definition charCode :: "char \<Rightarrow> nat" where
  "charCode c = of_char c"

text \<open>Truthiness of a possibly missing string: \<open>undefined\<close>, \<open>null\<close> and \<open>''\<close> are falsy.\<close>

definition truthy :: "string option \<Rightarrow> bool" where
  "truthy v = (case v of None \<Rightarrow> False | Some s \<Rightarrow> s \<noteq> [])"

text \<open>The nullish coalescing \<open>v ?? ''\<close>.\<close>

definition orEmpty :: "string option \<Rightarrow> string" where
  "orEmpty v = (case v of None \<Rightarrow> [] | Some s \<Rightarrow> s)"

definition hexLower :: "nat \<Rightarrow> char" where
  "hexLower n = ''0123456789abcdef'' ! (n mod 16)"

definition hexUpper :: "nat \<Rightarrow> char" where
  "hexUpper n = ''0123456789ABCDEF'' ! (n mod 16)"

subsection \<open>\<open>JSON.stringify\<close> on the page content\<close>

text \<open>
  \<open>JSON.stringify\<close> quotes a string: the double quote and the backslash get a
  backslash, the control characters below 0x20 their short escape or \<open>\u00XX\<close>;
  every other code unit stands for itself.
\<close>

definition jsonEscapeChar :: "char \<Rightarrow> string" where
  "jsonEscapeChar c =
     (if c = CHR 0x22 then [CHR 0x5C, CHR 0x22]
      else if c = CHR 0x5C then [CHR 0x5C, CHR 0x5C]
      else if c = CHR 0x08 then [CHR 0x5C, CHR ''b'']
      else if c = CHR 0x0C then [CHR 0x5C, CHR ''f'']
      else if c = CHR 0x0A then [CHR 0x5C, CHR ''n'']
      else if c = CHR 0x0D then [CHR 0x5C, CHR ''r'']
      else if c = CHR 0x09 then [CHR 0x5C, CHR ''t'']
      else if charCode c < 32
        then [CHR 0x5C, CHR ''u'', CHR ''0'', CHR ''0'', hexLower (charCode c div 16), hexLower (charCode c)]
      else [c])"

definition jsonString :: "string \<Rightarrow> string" where
  "jsonString s = [CHR 0x22] @ concat (map jsonEscapeChar s) @ [CHR 0x22]"

text \<open>A property whose value is \<open>undefined\<close> is left out of the object.\<close>

definition jsonProperty :: "string \<Rightarrow> string option \<Rightarrow> string list" where
  "jsonProperty k v = (case v of None \<Rightarrow> [] | Some s \<Rightarrow> [jsonString k @ '':'' @ jsonString s])"

fun joinWith :: "string \<Rightarrow> string list \<Rightarrow> string" where
  "joinWith sep [] = []"
| "joinWith sep [x] = x"
| "joinWith sep (x # y # ys) = x @ sep @ joinWith sep (y # ys)"

definition jsonObject :: "(string \<times> string option) list \<Rightarrow> string" where
  "jsonObject kvs = ''{'' @ joinWith '','' (concat (map (\<lambda>(k, v). jsonProperty k v) kvs)) @ ''}''"

section \<open>Data model of \<open>handler.ts\<close>\<close>

text \<open>
  \<open>Provider\<close> is a union of string literals, a plain string at run time; the code
  casts unchecked strings to it, so the model keeps strings.
\<close>

type_synonym Provider = string

text \<open>\<open>OutputHTMLContentSuccess | OutputHTMLContentError\<close>.\<close>

datatype OutputHTMLContent =
    ContentSuccess Provider "string option"
  | ContentError Provider string "string option"

record OutputHTMLOptions =
  provider :: "Provider option"
  token :: "string option"
  error :: "string option"
  errorCode :: "string option"

text \<open>
  \<open>CloudflareEnv\<close>: the variables the handler reads, and the Bitbucket credentials of
  \<open>env.ts\<close> that it never reads (it destructures names with a leading underscore,
  which the environment does not have).
\<close>

record CloudflareEnv =
  ALLOWED_DOMAINS :: "string option"
  GITHUB_CLIENT_ID :: "string option"
  GITHUB_CLIENT_SECRET :: "string option"
  GITHUB_HOSTNAME :: "string option"
  GITLAB_CLIENT_ID :: "string option"
  GITLAB_CLIENT_SECRET :: "string option"
  GITLAB_HOSTNAME :: "string option"
  BITBUCKET_CLIENT_ID :: "string option"
  BITBUCKET_CLIENT_SECRET :: "string option"
  BITBUCKET_HOSTNAME :: "string option"
  INSECURE_COOKIES :: "string option"

text \<open>
  A \<open>Response\<close>: status (200 when the constructor is given none), body, and the
  headers in the order they are written.
\<close>

record Response =
  status :: nat
  body :: string
  headers :: "(string \<times> string) list"

text \<open>
  A \<open>Request\<close> after \<open>new URL(url)\<close>: method (\<open>requestMethod\<close> here), origin,
  path, the decoded query parameters in order, and the \<open>Cookie\<close> header when there
  is one.
\<close>

record Request =
  requestMethod :: string
  origin :: string
  pathname :: string
  searchParams :: "(string \<times> string) list"
  cookieHeader :: "string option"

text \<open>\<open>searchParams.get(name)\<close>: the first value under the name, or \<open>null\<close>.\<close>

definition searchGet :: "Request \<Rightarrow> string \<Rightarrow> string option" where
  "searchGet request name = map_of (searchParams request) name"

definition supportedProviders :: "string list" where
  "supportedProviders = [''github'', ''gitlab'', ''bitbucket'']"

definition arrayIncludes :: "string list \<Rightarrow> string \<Rightarrow> bool" where
  "arrayIncludes xs x = (x \<in> set xs)"

section \<open>\<open>outputHTML\<close>\<close>

definition JSON_stringify :: "OutputHTMLContent \<Rightarrow> string" where
  "JSON_stringify content =
     (case content of
        ContentError p e c \<Rightarrow>
          jsonObject [(''provider'', Some p), (''error'', Some e), (''errorCode'', c)]
      | ContentSuccess p t \<Rightarrow>
          jsonObject [(''provider'', Some p), (''token'', t)])"

text \<open>
  The local \<open>state\<close> and \<open>content\<close> of \<open>outputHTML\<close>; the provider defaults to
  \<open>unknown\<close>. The parameter \<open>env\<close> is optional in the source, and every call of
  the handlers passes it.
\<close>

definition outputProvider :: "OutputHTMLOptions \<Rightarrow> Provider" where
  "outputProvider opts = (case provider opts of None \<Rightarrow> ''unknown'' | Some p \<Rightarrow> p)"

definition outputState :: "OutputHTMLOptions \<Rightarrow> string" where
  "outputState opts = (if truthy (error opts) then ''error'' else ''success'')"

definition outputContent :: "OutputHTMLOptions \<Rightarrow> OutputHTMLContent" where
  "outputContent opts =
     (if truthy (error opts)
      then ContentError (outputProvider opts) (orEmpty (error opts)) (errorCode opts)
      else ContentSuccess (outputProvider opts) (token opts))"

definition secureAttr :: "CloudflareEnv \<Rightarrow> string" where
  "secureAttr env = (if INSECURE_COOKIES env = Some ''1'' then [] else ''; Secure'')"

definition sq :: string where
  "sq = [CHR 0x27]"

definition nl :: string where
  "nl = [CHR 0x0A]"

definition page :: "Provider \<Rightarrow> string \<Rightarrow> string \<Rightarrow> string" where
  "page p st json =
     nl @ ''      <!doctype html><html><body><script>'' @
     nl @ ''        (() => {'' @
     nl @ ''          window.addEventListener('' @ sq @ ''message'' @ sq @ '', ({ data, origin }) => {'' @
     nl @ ''            if (data === '' @ sq @ ''authorizing:'' @ p @ sq @ '') {'' @
     nl @ ''              window.opener?.postMessage('' @
     nl @ ''                '' @ sq @ ''authorization:'' @ p @ '':'' @ st @ '':'' @ json @ sq @ '','' @
     nl @ ''                origin'' @
     nl @ ''              );'' @
     nl @ ''            }'' @
     nl @ ''          });'' @
     nl @ ''          window.opener?.postMessage('' @ sq @ ''authorizing:'' @ p @ sq @ '', '' @ sq @ ''*'' @ sq @ '');'' @
     nl @ ''        })();'' @
     nl @ ''      </script></body></html>'' @
     nl @ ''    ''"

definition deleteCookie :: "CloudflareEnv \<Rightarrow> string" where
  "deleteCookie env =
     ''csrf-token=deleted; HttpOnly; Max-Age=0; Path=/; SameSite=Lax'' @ secureAttr env"

text \<open>
  The constructor is given the status 200 by default and two header values that it
  takes as they are (\<open>outputHTML_newResponse\<close> below), so the page is written as the
  response it builds.
\<close>

definition outputHTML :: "OutputHTMLOptions \<Rightarrow> CloudflareEnv \<Rightarrow> Response" where
  "outputHTML opts env =
     \<lparr> status = 200,
       body = page (outputProvider opts) (outputState opts) (JSON_stringify (outputContent opts)),
       headers = [(''Content-Type'', ''text/html;charset=UTF-8''),
                  (''Set-Cookie'', deleteCookie env)] \<rparr>"

section \<open>Regular expressions of the handler\<close>

definition isDigit :: "char \<Rightarrow> bool" where
  "isDigit c = (48 \<le> charCode c \<and> charCode c \<le> 57)"

definition isLower :: "char \<Rightarrow> bool" where
  "isLower c = (97 \<le> charCode c \<and> charCode c \<le> 122)"

definition isUpper :: "char \<Rightarrow> bool" where
  "isUpper c = (65 \<le> charCode c \<and> charCode c \<le> 90)"

text \<open>\<open>\w\<close>, the class that decides \<open>\b\<close>.\<close>

definition isWordChar :: "char \<Rightarrow> bool" where
  "isWordChar c = (isDigit c \<or> isLower c \<or> isUpper c \<or> c = CHR ''_'')"

text \<open>\<open>[a-z-]\<close> and \<open>[0-9a-f]\<close>.\<close>

definition isProviderChar :: "char \<Rightarrow> bool" where
  "isProviderChar c = (isLower c \<or> c = CHR ''-'')"

definition isHexChar :: "char \<Rightarrow> bool" where
  "isHexChar c = (isDigit c \<or> (97 \<le> charCode c \<and> charCode c \<le> 102))"

subsection \<open>The cookie pattern \<open>/\bcsrf-token=([a-z-]+?)_([0-9a-f]{32})\b/\<close>\<close>

text \<open>
  \<open>_([0-9a-f]{32})\b\<close> at the head of the input: the underscore, 32 hexadecimal
  digits, and then a word boundary, that is the end of the input or a character
  outside \<open>\w\<close>.
\<close>

definition boundaryAfter :: "string \<Rightarrow> bool" where
  "boundaryAfter rest = (case rest of [] \<Rightarrow> True | c # _ \<Rightarrow> \<not> isWordChar c)"

definition matchToken :: "string \<Rightarrow> string option" where
  "matchToken s =
     (case s of
        [] \<Rightarrow> None
      | c # r \<Rightarrow>
          if c = CHR ''_'' \<and> 32 \<le> length r \<and> list_all isHexChar (take 32 r)
             \<and> boundaryAfter (drop 32 r)
          then Some (take 32 r) else None)"

text \<open>
  \<open>([a-z-]+?)\<close> is lazy: it takes one character, tries the rest of the pattern, and
  takes one more character only when the rest fails.
\<close>

fun matchProvider :: "string \<Rightarrow> string \<Rightarrow> (string \<times> string) option" where
  "matchProvider acc [] = None"
| "matchProvider acc (c # r) =
     (if isProviderChar c
      then (case matchToken r of
              Some t \<Rightarrow> Some (acc @ [c], t)
            | None \<Rightarrow> matchProvider (acc @ [c]) r)
      else None)"

text \<open>
  One attempt at a position: the boundary before \<open>c\<close> (a word character) needs the
  start of the input or a character outside \<open>\w\<close> before it.
\<close>

definition boundaryBefore :: "char option \<Rightarrow> bool" where
  "boundaryBefore prev = (case prev of None \<Rightarrow> True | Some c \<Rightarrow> \<not> isWordChar c)"

definition matchHere :: "char option \<Rightarrow> string \<Rightarrow> (string \<times> string) option" where
  "matchHere prev s =
     (if boundaryBefore prev \<and> take 11 s = ''csrf-token=''
      then matchProvider [] (drop 11 s) else None)"

text \<open>\<open>String.prototype.match\<close> without the \<open>g\<close> flag: the leftmost position that matches.\<close>

fun searchFrom :: "char option \<Rightarrow> string \<Rightarrow> (string \<times> string) option" where
  "searchFrom prev [] = None"
| "searchFrom prev (c # r) =
     (case matchHere prev (c # r) of
        Some m \<Rightarrow> Some m
      | None \<Rightarrow> searchFrom (Some c) r)"

definition cookieMatch :: "string option \<Rightarrow> (string \<times> string) option" where
  "cookieMatch header = (case header of None \<Rightarrow> None | Some h \<Rightarrow> searchFrom None h)"

subsection \<open>The allow-list pattern\<close>

definition backslash :: char where
  "backslash = CHR 0x5C"

definition regExpSpecial :: "char \<Rightarrow> bool" where
  "regExpSpecial c = (c \<in> set (''.*+?^${}()|[]'' @ [backslash]))"

definition escapeRegExp :: "string \<Rightarrow> string" where
  "escapeRegExp str = concat (map (\<lambda>c. if regExpSpecial c then [backslash, c] else [c]) str)"

text \<open>\<open>String.prototype.replace\<close> with a string pattern: the first occurrence only.\<close>

fun replaceFirst :: "string \<Rightarrow> string \<Rightarrow> string \<Rightarrow> string" where
  "replaceFirst pat rep [] = (if pat = [] then rep else [])"
| "replaceFirst pat rep (c # cs) =
     (if take (length pat) (c # cs) = pat then rep @ drop (length pat) (c # cs)
      else c # replaceFirst pat rep cs)"

text \<open>\<open>String.prototype.trim\<close>: white space and line terminators, from both ends.\<close>

definition isWhiteSpace :: "char \<Rightarrow> bool" where
  "isWhiteSpace c = (charCode c \<in> {9, 10, 11, 12, 13, 32, 160})"

definition trim :: "string \<Rightarrow> string" where
  "trim s = rev (dropWhile isWhiteSpace (rev (dropWhile isWhiteSpace s)))"

text \<open>\<open>split(/,/)\<close>.\<close>

fun splitComma :: "string \<Rightarrow> string list" where
  "splitComma [] = [[]]"
| "splitComma (c # cs) =
     (if c = CHR '','' then [] # splitComma cs
      else (case splitComma cs of [] \<Rightarrow> [[c]] | x # xs \<Rightarrow> (c # x) # xs))"

text \<open>
  \<open>new RegExp\<close> on the sources the handler builds. The fragment: an escaped special
  character, \<open>.+\<close>, and any other character that is not special. A source outside the
  fragment does not compile here (\<open>None\<close>); \<open>wildcardSource\<close> never builds one.
\<close>

datatype RegExpTerm = Literal char | AnyPlus

fun compileRegExp :: "string \<Rightarrow> RegExpTerm list option" where
  "compileRegExp [] = Some []"
| "compileRegExp [c] = (if regExpSpecial c then None else Some [Literal c])"
| "compileRegExp (c # d # ds) =
     (if c = backslash
        then (if regExpSpecial d then map_option ((#) (Literal d)) (compileRegExp ds) else None)
      else if c = CHR ''.''
        then (if d = CHR ''+'' then map_option ((#) AnyPlus) (compileRegExp ds) else None)
      else if regExpSpecial c then None
      else map_option ((#) (Literal c)) (compileRegExp (d # ds)))"

text \<open>\<open>.\<close> matches any character but a line terminator.\<close>

definition isLineTerminator :: "char \<Rightarrow> bool" where
  "isLineTerminator c = (charCode c = 10 \<or> charCode c = 13)"

text \<open>
  Matching between \<open>^\<close> and \<open>$\<close> (no \<open>m\<close> flag: the whole input). \<open>.+\<close> is greedy: it
  first tries to take one more character, then to go on with the rest.
\<close>

fun matchTerms :: "RegExpTerm list \<Rightarrow> string \<Rightarrow> bool" where
  "matchTerms [] [] = True"
| "matchTerms [] (x # xs) = False"
| "matchTerms (t # ts) [] = False"
| "matchTerms (Literal c # ts) (x # xs) = (x = c \<and> matchTerms ts xs)"
| "matchTerms (AnyPlus # ts) (x # xs) =
     (\<not> isLineTerminator x \<and> (matchTerms (AnyPlus # ts) xs \<or> matchTerms ts xs))"

definition anchoredMatch :: "string \<Rightarrow> string \<Rightarrow> bool" where
  "anchoredMatch source s =
     (case compileRegExp source of None \<Rightarrow> False | Some r \<Rightarrow> matchTerms r s)"

text \<open>The source between \<open>^\<close> and \<open>$\<close>: \<open>escapeRegExp(str.trim()).replace('\\*', '.+')\<close>.\<close>

definition wildcardSource :: "string \<Rightarrow> string" where
  "wildcardSource str = replaceFirst [backslash, CHR ''*''] ''.+'' (escapeRegExp (trim str))"

definition domainAllowed :: "string \<Rightarrow> string option \<Rightarrow> bool" where
  "domainAllowed allowed domain =
     list_ex (\<lambda>str. anchoredMatch (wildcardSource str) (orEmpty domain)) (splitComma allowed)"

section \<open>\<open>URLSearchParams.toString\<close>\<close>

text \<open>
  The \<open>application/x-www-form-urlencoded\<close> serializer: letters, digits and \<open>*-._\<close>
  stay, a space becomes \<open>+\<close>, every other byte of the UTF-8 encoding becomes \<open>%XX\<close>.
\<close>

definition percentByte :: "nat \<Rightarrow> string" where
  "percentByte b = [CHR ''%'', hexUpper (b div 16), hexUpper b]"

definition formEncodeChar :: "char \<Rightarrow> string" where
  "formEncodeChar c =
     (if isDigit c \<or> isLower c \<or> isUpper c \<or> c \<in> set ''*-._'' then [c]
      else if c = CHR '' '' then ''+''
      else if charCode c < 128 then percentByte (charCode c)
      else percentByte (192 + charCode c div 64) @ percentByte (128 + charCode c mod 64))"

definition formEncode :: "string \<Rightarrow> string" where
  "formEncode s = concat (map formEncodeChar s)"

definition paramsToString :: "(string \<times> string) list \<Rightarrow> string" where
  "paramsToString kvs = joinWith ''&'' (map (\<lambda>(k, v). formEncode k @ ''='' @ formEncode v) kvs)"

section \<open>The \<open>Response\<close> constructor\<close>

text \<open>
  \<open>new Response(body, { status, headers })\<close> in the server runtimes the handler runs
  on. Every header value is normalised (HTTP white space is stripped from both ends)
  and must then hold no NUL, LF or CR: otherwise the constructor throws a
  \<open>TypeError\<close>. The header names of the handler are literals and valid. A string
  body brings \<open>Content-Type: text/plain;charset=UTF-8\<close> when the headers have no
  content type of their own.
\<close>

datatype Thrown = TypeError

definition isHTTPWhitespace :: "char \<Rightarrow> bool" where
  "isHTTPWhitespace c = (charCode c \<in> {9, 10, 13, 32})"

definition normalizeValue :: "string \<Rightarrow> string" where
  "normalizeValue v = rev (dropWhile isHTTPWhitespace (rev (dropWhile isHTTPWhitespace v)))"

definition isHeaderValue :: "string \<Rightarrow> bool" where
  "isHeaderValue v = list_all (\<lambda>c. charCode c \<notin> {0, 10, 13}) v"

definition newResponse :: "string \<Rightarrow> nat \<Rightarrow> (string \<times> string) list \<Rightarrow> Thrown + Response" where
  "newResponse content statusCode init =
     (let hs = map (\<lambda>(k, v). (k, normalizeValue v)) init
      in
      if list_all (\<lambda>(k, v). isHeaderValue v) hs
      then Inr \<lparr> status = statusCode, body = content,
                 headers = hs @ (if map_of hs ''Content-Type'' = None
                                 then [(''Content-Type'', ''text/plain;charset=UTF-8'')]
                                 else []) \<rparr>
      else Inl TypeError)"

section \<open>\<open>handleAuth\<close>\<close>

text \<open>A destructuring default: \<open>GITHUB_HOSTNAME = 'github.com'\<close> applies to \<open>undefined\<close> only.\<close>

definition withDefault :: "string option \<Rightarrow> string \<Rightarrow> string" where
  "withDefault v d = (case v of None \<Rightarrow> d | Some s \<Rightarrow> s)"

text \<open>\<open>replaceAll('-', '')\<close>.\<close>

definition removeHyphens :: "string \<Rightarrow> string" where
  "removeHyphens s = filter (\<lambda>c. c \<noteq> CHR ''-'') s"

definition unsupportedBackend :: OutputHTMLOptions where
  "unsupportedBackend =
     \<lparr> provider = None, token = None,
       error = Some ''Your Git backend is not supported by the authenticator.'',
       errorCode = Some ''UNSUPPORTED_BACKEND'' \<rparr>"

definition unsupportedDomain :: "Provider \<Rightarrow> OutputHTMLOptions" where
  "unsupportedDomain p =
     \<lparr> provider = Some p, token = None,
       error = Some ''Your domain is not allowed to use the authenticator.'',
       errorCode = Some ''UNSUPPORTED_DOMAIN'' \<rparr>"

definition misconfiguredClient :: "Provider \<Rightarrow> OutputHTMLOptions" where
  "misconfiguredClient p =
     \<lparr> provider = Some p, token = None,
       error = Some ''OAuth app client ID or secret is not configured.'',
       errorCode = Some ''MISCONFIGURED_CLIENT'' \<rparr>"

definition bitbucketUnsupported :: "Provider \<Rightarrow> OutputHTMLOptions" where
  "bitbucketUnsupported p =
     \<lparr> provider = Some p, token = None,
       error = Some ''Bitbucket OAuth is not yet supported.'',
       errorCode = Some ''UNSUPPORTED_BACKEND'' \<rparr>"

text \<open>The cookie of the redirect (lines 223 to 225).\<close>

definition issueCookie :: "string \<Rightarrow> string \<Rightarrow> string" where
  "issueCookie cookieProvider csrfToken =
     ''csrf-token='' @ cookieProvider @ ''_'' @ csrfToken @ ''; '' @
     ''HttpOnly; Path=/; Max-Age=600; SameSite=Lax; Secure''"

definition githubAuthURL :: "CloudflareEnv \<Rightarrow> string \<Rightarrow> string" where
  "githubAuthURL env csrfToken =
     ''https://'' @ withDefault (GITHUB_HOSTNAME env) ''github.com'' @ ''/login/oauth/authorize?'' @
     paramsToString [(''client_id'', orEmpty (GITHUB_CLIENT_ID env)),
                     (''scope'', ''repo,user''),
                     (''state'', csrfToken)]"

definition gitlabAuthURL :: "Request \<Rightarrow> CloudflareEnv \<Rightarrow> string \<Rightarrow> string" where
  "gitlabAuthURL request env csrfToken =
     ''https://'' @ withDefault (GITLAB_HOSTNAME env) ''gitlab.com'' @ ''/oauth/authorize?'' @
     paramsToString [(''client_id'', orEmpty (GITLAB_CLIENT_ID env)),
                     (''redirect_uri'', origin request @ ''/callback''),
                     (''response_type'', ''code''),
                     (''scope'', ''api''),
                     (''state'', csrfToken)]"

text \<open>
  Lines 151 to 227: what \<open>handleAuth\<close> does once the provider is a supported one and
  the domain has passed. \<open>randomUUID\<close> is the string \<open>crypto.randomUUID()\<close> returned.
  The result is \<open>Inl TypeError\<close> when the constructor of the redirect throws, which
  the handler does not catch.
\<close>

definition authorize :: "Request \<Rightarrow> CloudflareEnv \<Rightarrow> string \<Rightarrow> Provider \<Rightarrow> string \<Rightarrow> Thrown + Response" where
  "authorize request env prov reqProvider randomUUID =
     (let csrfToken = removeHyphens randomUUID;
          cookieProvider = (if arrayIncludes supportedProviders prov then prov else ''unknown'')
      in
      if prov = ''github'' \<and> (\<not> truthy (GITHUB_CLIENT_ID env) \<or> \<not> truthy (GITHUB_CLIENT_SECRET env))
      then Inr (outputHTML (misconfiguredClient reqProvider) env)
      else
        let authURL = (if prov = ''github'' then githubAuthURL env csrfToken else [])
        in
        if prov = ''gitlab'' \<and> (\<not> truthy (GITLAB_CLIENT_ID env) \<or> \<not> truthy (GITLAB_CLIENT_SECRET env))
        then Inr (outputHTML (misconfiguredClient reqProvider) env)
        else
          let authURL = (if prov = ''gitlab'' then gitlabAuthURL request env csrfToken else authURL)
          in
          if prov = ''bitbucket''
          then Inr (outputHTML (bitbucketUnsupported reqProvider) env)
          else newResponse [] 302
                 [(''Location'', authURL),
                  (''Set-Cookie'', issueCookie cookieProvider csrfToken)])"

definition handleAuth :: "Request \<Rightarrow> CloudflareEnv \<Rightarrow> string \<Rightarrow> Thrown + Response" where
  "handleAuth request env randomUUID =
     (let prov = searchGet request ''provider'';
          domain = searchGet request ''site_id'';
          reqProvider = (if arrayIncludes supportedProviders (orEmpty prov)
                         then orEmpty prov else ''unknown'')
      in
      if \<not> truthy prov \<or> \<not> arrayIncludes supportedProviders (orEmpty prov)
      then Inr (outputHTML unsupportedBackend env)
      else if truthy (ALLOWED_DOMAINS env)
              \<and> \<not> domainAllowed (orEmpty (ALLOWED_DOMAINS env)) domain
      then Inr (outputHTML (unsupportedDomain reqProvider) env)
      else authorize request env (orEmpty prov) reqProvider randomUUID)"

section \<open>\<open>handleCallback\<close>\<close>

text \<open>
  What the \<open>try\<close> block around \<open>response.json()\<close> gives: \<open>Unparseable\<close> when it
  throws (the body is not JSON, or it is \<open>null\<close> and reading a field of it throws);
  otherwise the two optional fields \<open>access_token\<close> and \<open>error\<close>, strings by the
  declared type \<open>{ access_token?: string; error?: string }\<close>.
\<close>

datatype TokenBody = Unparseable | Parsed "string option" "string option"

text \<open>
  The network: \<open>fetch\<close> called with the token URL and the fields of the JSON body;
  \<open>None\<close> when it throws, so that \<open>response\<close> stays \<open>undefined\<close>.
\<close>

type_synonym Network = "string \<Rightarrow> (string \<times> string) list \<Rightarrow> TokenBody option"

definition authCodeRequestFailed :: "Provider \<Rightarrow> OutputHTMLOptions" where
  "authCodeRequestFailed p =
     \<lparr> provider = Some p, token = None,
       error = Some ''Failed to receive an authorization code. Please try again later.'',
       errorCode = Some ''AUTH_CODE_REQUEST_FAILED'' \<rparr>"

definition csrfDetected :: "Provider \<Rightarrow> OutputHTMLOptions" where
  "csrfDetected p =
     \<lparr> provider = Some p, token = None,
       error = Some ''Potential CSRF attack detected. Authentication flow aborted.'',
       errorCode = Some ''CSRF_DETECTED'' \<rparr>"

definition tokenRequestFailed :: "Provider \<Rightarrow> OutputHTMLOptions" where
  "tokenRequestFailed p =
     \<lparr> provider = Some p, token = None,
       error = Some ''Failed to request an access token. Please try again later.'',
       errorCode = Some ''TOKEN_REQUEST_FAILED'' \<rparr>"

definition malformedResponse :: "Provider \<Rightarrow> OutputHTMLOptions" where
  "malformedResponse p =
     \<lparr> provider = Some p, token = None,
       error = Some ''Server responded with malformed data. Please try again later.'',
       errorCode = Some ''MALFORMED_RESPONSE'' \<rparr>"

text \<open>Lines 360 to 406: the request to the token endpoint and the page made of its answer.\<close>

definition requestToken :: "CloudflareEnv \<Rightarrow> Network \<Rightarrow> Provider \<Rightarrow> string \<Rightarrow> (string \<times> string) list \<Rightarrow> Response" where
  "requestToken env net cookieProvider tokenURL requestBody =
     (case net tokenURL requestBody of
        None \<Rightarrow> outputHTML (tokenRequestFailed cookieProvider) env
      | Some Unparseable \<Rightarrow> outputHTML (malformedResponse cookieProvider) env
      | Some (Parsed access_token err) \<Rightarrow>
          outputHTML \<lparr> provider = Some cookieProvider,
                       token = Some (orEmpty access_token),
                       error = Some (orEmpty err),
                       errorCode = None \<rparr> env)"

text \<open>Lines 288 to 406: what \<open>handleCallback\<close> does once the CSRF check has passed.\<close>

definition exchange :: "Request \<Rightarrow> CloudflareEnv \<Rightarrow> Network \<Rightarrow> Provider \<Rightarrow> Provider \<Rightarrow> string \<Rightarrow> Response" where
  "exchange request env net prov cookieProvider authCode =
     (if prov = ''github'' \<and> (\<not> truthy (GITHUB_CLIENT_ID env) \<or> \<not> truthy (GITHUB_CLIENT_SECRET env))
      then outputHTML (misconfiguredClient cookieProvider) env
      else
        let tokenURL = (if prov = ''github''
              then ''https://'' @ withDefault (GITHUB_HOSTNAME env) ''github.com'' @ ''/login/oauth/access_token''
              else []);
            requestBody = (if prov = ''github''
              then [(''code'', authCode),
                    (''client_id'', orEmpty (GITHUB_CLIENT_ID env)),
                    (''client_secret'', orEmpty (GITHUB_CLIENT_SECRET env))]
              else [])
        in
        if prov = ''gitlab'' \<and> (\<not> truthy (GITLAB_CLIENT_ID env) \<or> \<not> truthy (GITLAB_CLIENT_SECRET env))
        then outputHTML (misconfiguredClient cookieProvider) env
        else
          let tokenURL = (if prov = ''gitlab''
                then ''https://'' @ withDefault (GITLAB_HOSTNAME env) ''gitlab.com'' @ ''/oauth/token''
                else tokenURL);
              requestBody = (if prov = ''gitlab''
                then [(''code'', authCode),
                      (''client_id'', orEmpty (GITLAB_CLIENT_ID env)),
                      (''client_secret'', orEmpty (GITLAB_CLIENT_SECRET env)),
                      (''grant_type'', ''authorization_code''),
                      (''redirect_uri'', origin request @ ''/callback'')]
                else requestBody)
          in
          if prov = ''bitbucket''
          then outputHTML (bitbucketUnsupported cookieProvider) env
          else requestToken env net cookieProvider tokenURL requestBody)"

definition handleCallback :: "Request \<Rightarrow> CloudflareEnv \<Rightarrow> Network \<Rightarrow> Response" where
  "handleCallback request env net =
     (let authCode = searchGet request ''code'';
          stateParam = searchGet request ''state'';
          matched = cookieMatch (cookieHeader request);
          prov = map_option fst matched;
          csrfToken = map_option snd matched;
          cookieProvider = (if arrayIncludes supportedProviders (orEmpty prov)
                            then orEmpty prov else ''unknown'')
      in
      if \<not> truthy prov \<or> \<not> arrayIncludes supportedProviders (orEmpty prov)
      then outputHTML unsupportedBackend env
      else if \<not> truthy authCode \<or> \<not> truthy stateParam
      then outputHTML (authCodeRequestFailed cookieProvider) env
      else if \<not> truthy csrfToken \<or> stateParam \<noteq> csrfToken
      then outputHTML (csrfDetected cookieProvider) env
      else exchange request env net (orEmpty prov) cookieProvider (orEmpty authCode))"

section \<open>The router\<close>

text \<open>The \<open>fetch\<close> method of the default export.\<close>

definition fetch :: "Request \<Rightarrow> CloudflareEnv \<Rightarrow> string \<Rightarrow> Network \<Rightarrow> Thrown + Response" where
  "fetch request env randomUUID net =
     (if requestMethod request = ''GET''
         \<and> arrayIncludes [''/auth'', ''/oauth/authorize'', ''/oauth/auth''] (pathname request)
      then handleAuth request env randomUUID
      else if requestMethod request = ''GET''
         \<and> arrayIncludes [''/callback'', ''/oauth/redirect''] (pathname request)
      then Inr (handleCallback request env net)
      else newResponse [] 404 [])"

section \<open>Reading a response\<close>

text \<open>Every value sent under \<open>Set-Cookie\<close>.\<close>

definition setCookies :: "Response \<Rightarrow> string list" where
  "setCookies response = map snd (filter (\<lambda>kv. fst kv = ''Set-Cookie'') (headers response))"

section \<open>What \<open>crypto.randomUUID\<close> returns\<close>


section \<open>The allow-list as the specification words it\<close>

text \<open>
  An entry is a literal string anchored at both ends, except that its first \<open>*\<close>
  stands for one or more characters. \<open>splitStar\<close> cuts an entry at its first \<open>*\<close>;
  \<open>specEntryMatches ok\<close> lets the wildcard stand for one or more characters that
  satisfy \<open>ok\<close>.
\<close>

fun splitStar :: "string \<Rightarrow> (string \<times> string) option" where
  "splitStar [] = None"
| "splitStar (c # cs) =
     (if c = CHR ''*'' then Some ([], cs)
      else map_option (\<lambda>(a, b). (c # a, b)) (splitStar cs))"

definition specEntryMatches :: "(char \<Rightarrow> bool) \<Rightarrow> string \<Rightarrow> string \<Rightarrow> bool" where
  "specEntryMatches ok entry domain =
     (case splitStar entry of
        None \<Rightarrow> domain = entry
      | Some (pre, post) \<Rightarrow>
          length pre + length post < length domain
          \<and> take (length pre) domain = pre
          \<and> drop (length domain - length post) domain = post
          \<and> list_all ok (take (length domain - length pre - length post) (drop (length pre) domain)))"

definition anyChar :: "char \<Rightarrow> bool" where
  "anyChar c = True"

definition notLineTerminator :: "char \<Rightarrow> bool" where
  "notLineTerminator c = (\<not> isLineTerminator c)"

text \<open>The allow-list of the specification over the entries, each trimmed.\<close>

definition specDomainAllowed :: "(char \<Rightarrow> bool) \<Rightarrow> string \<Rightarrow> string \<Rightarrow> bool" where
  "specDomainAllowed ok allowed domain =
     list_ex (\<lambda>entry. specEntryMatches ok entry domain) (map trim (splitComma allowed))"

section \<open>Sample requests and configurations\<close>

definition sampleUUID :: string where
  "sampleUUID = ''123e4567-e89b-42d3-a456-426614174000''"

text \<open>
  A local configuration: GitHub and Bitbucket credentials, the allow-list
  \<open>*.example.com\<close>, and \<open>INSECURE_COOKIES=1\<close>.
\<close>

definition localEnv :: CloudflareEnv where
  "localEnv =
     \<lparr> ALLOWED_DOMAINS = Some ''*.example.com'',
       GITHUB_CLIENT_ID = Some ''id'', GITHUB_CLIENT_SECRET = Some ''secret'',
       GITHUB_HOSTNAME = None,
       GITLAB_CLIENT_ID = None, GITLAB_CLIENT_SECRET = None, GITLAB_HOSTNAME = None,
       BITBUCKET_CLIENT_ID = Some ''bid'', BITBUCKET_CLIENT_SECRET = Some ''bsecret'',
       BITBUCKET_HOSTNAME = None,
       INSECURE_COOKIES = Some ''1'' \<rparr>"

definition authRequest :: "(string \<times> string) list \<Rightarrow> Request" where
  "authRequest params =
     \<lparr> requestMethod = ''GET'', origin = ''http://localhost:3000'', pathname = ''/auth'',
       searchParams = params, cookieHeader = None \<rparr>"

definition callbackRequest :: "(string \<times> string) list \<Rightarrow> string option \<Rightarrow> Request" where
  "callbackRequest params cookie =
     \<lparr> requestMethod = ''GET'', origin = ''http://localhost:3000'', pathname = ''/callback'',
       searchParams = params, cookieHeader = cookie \<rparr>"

definition noNetwork :: Network where
  "noNetwork url requestBody = None"

text \<open>A token endpoint that always answers with the given body.\<close>

definition answering :: "TokenBody \<Rightarrow> Network" where
  "answering answer url requestBody = Some answer"

section \<open>The cookie pattern finds only cookies of its shape\<close>

lemma matchToken_Some:
  assumes "matchToken s = Some t"
  shows "\<exists>post. s = ''_'' @ t @ post \<and> length t = 32 \<and> list_all isHexChar t \<and> boundaryAfter post"
proof (cases s)
  case Nil
  with assms show ?thesis by (simp add: matchToken_def)
next
  case (Cons c r)
  with assms have c: "c = CHR ''_''" and len: "32 \<le> length r" and hex: "list_all isHexChar (take 32 r)"
    and bnd: "boundaryAfter (drop 32 r)" and t: "t = take 32 r"
    by (auto simp: matchToken_def split: if_splits)
  have "s = ''_'' @ t @ drop 32 r" using Cons c t by simp
  moreover have "length t = 32" using t len by simp
  ultimately show ?thesis using hex bnd t by blast
qed

lemma matchProvider_Some:
  "matchProvider acc s = Some (p, t) \<Longrightarrow>
   \<exists>q post. p = acc @ q \<and> q \<noteq> [] \<and> list_all isProviderChar q \<and> s = q @ ''_'' @ t @ post
     \<and> length t = 32 \<and> list_all isHexChar t \<and> boundaryAfter post"
proof (induction s arbitrary: acc)
  case Nil
  then show ?case by simp
next
  case (Cons c r)
  from Cons.prems have pc: "isProviderChar c" by (simp split: if_splits)
  show ?case
  proof (cases "matchToken r")
    case (Some t')
    with Cons.prems pc have p: "p = acc @ [c]" and t: "t' = t" by simp_all
    from matchToken_Some[OF Some] t obtain post where
      "r = ''_'' @ t @ post" "length t = 32" "list_all isHexChar t" "boundaryAfter post" by blast
    then show ?thesis using p pc
      by (intro exI[of _ "[c]"] exI[of _ post]) simp
  next
    case None
    with Cons.prems pc have "matchProvider (acc @ [c]) r = Some (p, t)" by simp
    from Cons.IH[OF this] obtain q post where q: "p = (acc @ [c]) @ q" "list_all isProviderChar q"
      "r = q @ ''_'' @ t @ post" "length t = 32" "list_all isHexChar t" "boundaryAfter post" by blast
    then show ?thesis using pc
      by (intro exI[of _ "c # q"] exI[of _ post]) simp
  qed
qed

lemma matchHere_Some:
  assumes "matchHere prev s = Some (p, t)"
  shows "boundaryBefore prev \<and> (\<exists>post. s = ''csrf-token='' @ p @ ''_'' @ t @ post
     \<and> p \<noteq> [] \<and> list_all isProviderChar p \<and> length t = 32 \<and> list_all isHexChar t \<and> boundaryAfter post)"
proof -
  from assms have b: "boundaryBefore prev" and tk: "take 11 s = ''csrf-token=''"
    and m: "matchProvider [] (drop 11 s) = Some (p, t)"
    by (auto simp: matchHere_def split: if_splits)
  from matchProvider_Some[OF m] obtain post where
    q: "p \<noteq> []" "list_all isProviderChar p" "drop 11 s = p @ ''_'' @ t @ post"
       "length t = 32" "list_all isHexChar t" "boundaryAfter post" by auto
  have "s = take 11 s @ drop 11 s" by simp
  then have "s = ''csrf-token='' @ p @ ''_'' @ t @ post" using tk q(3) by metis
  then show ?thesis using b q by blast
qed

lemma searchFrom_Some:
  "searchFrom prev s = Some (p, t) \<Longrightarrow>
   \<exists>pre post. s = pre @ ''csrf-token='' @ p @ ''_'' @ t @ post
     \<and> boundaryBefore (if pre = [] then prev else Some (last pre))
     \<and> p \<noteq> [] \<and> list_all isProviderChar p \<and> length t = 32 \<and> list_all isHexChar t \<and> boundaryAfter post"
proof (induction s arbitrary: prev)
  case Nil
  then show ?case by simp
next
  case (Cons c r)
  show ?case
  proof (cases "matchHere prev (c # r)")
    case (Some m)
    with Cons.prems have "matchHere prev (c # r) = Some (p, t)" by simp
    from matchHere_Some[OF this] obtain post where
      "boundaryBefore prev" "c # r = ''csrf-token='' @ p @ ''_'' @ t @ post"
      "p \<noteq> []" "list_all isProviderChar p" "length t = 32" "list_all isHexChar t" "boundaryAfter post"
      by blast
    then show ?thesis
      by (intro exI[of _ "[]"] exI[of _ post]) simp
  next
    case None
    with Cons.prems have "searchFrom (Some c) r = Some (p, t)" by simp
    from Cons.IH[OF this] obtain pre post where
      h: "r = pre @ ''csrf-token='' @ p @ ''_'' @ t @ post"
         "boundaryBefore (if pre = [] then Some c else Some (last pre))"
         "p \<noteq> []" "list_all isProviderChar p" "length t = 32" "list_all isHexChar t" "boundaryAfter post"
      by blast
    then show ?thesis
      by (intro exI[of _ "c # pre"] exI[of _ post]) (simp split: if_splits)
  qed
qed

section \<open>The two handlers, path by path\<close>

lemma supported_nonempty: "arrayIncludes supportedProviders p \<Longrightarrow> p \<noteq> []"
  by (auto simp: arrayIncludes_def supportedProviders_def)

lemma supported_cases:
  "arrayIncludes supportedProviders p \<longleftrightarrow> p = ''github'' \<or> p = ''gitlab'' \<or> p = ''bitbucket''"
  by (auto simp: arrayIncludes_def supportedProviders_def)

lemma handleCallback_unfold:
  "handleCallback request env net =
     (case cookieMatch (cookieHeader request) of
        None \<Rightarrow> outputHTML unsupportedBackend env
      | Some (p, t) \<Rightarrow>
          if \<not> arrayIncludes supportedProviders p then outputHTML unsupportedBackend env
          else if \<not> truthy (searchGet request ''code'') \<or> \<not> truthy (searchGet request ''state'')
            then outputHTML (authCodeRequestFailed p) env
          else if searchGet request ''state'' \<noteq> Some t
            then outputHTML (csrfDetected p) env
          else exchange request env net p p (orEmpty (searchGet request ''code'')))"
proof (cases "cookieMatch (cookieHeader request)")
  case None
  then show ?thesis by (simp add: handleCallback_def truthy_def)
next
  case (Some m)
  obtain p t where m: "m = (p, t)" by (cases m)
  show ?thesis
  proof (cases "arrayIncludes supportedProviders p")
    case False
    then show ?thesis using Some m by (simp add: handleCallback_def orEmpty_def)
  next
    case True
    then have "p \<noteq> []" by (rule supported_nonempty)
    then show ?thesis using Some m True
      by (auto simp: handleCallback_def orEmpty_def truthy_def Let_def)
  qed
qed

lemma handleAuth_unfold:
  "handleAuth request env uuid =
     (case searchGet request ''provider'' of
        None \<Rightarrow> Inr (outputHTML unsupportedBackend env)
      | Some p \<Rightarrow>
          if \<not> arrayIncludes supportedProviders p then Inr (outputHTML unsupportedBackend env)
          else if truthy (ALLOWED_DOMAINS env)
                  \<and> \<not> domainAllowed (orEmpty (ALLOWED_DOMAINS env)) (searchGet request ''site_id'')
            then Inr (outputHTML (unsupportedDomain p) env)
          else authorize request env p p uuid)"
proof (cases "searchGet request ''provider''")
  case None
  then show ?thesis by (simp add: handleAuth_def truthy_def)
next
  case (Some p)
  show ?thesis
  proof (cases "arrayIncludes supportedProviders p")
    case False
    then show ?thesis using Some by (simp add: handleAuth_def orEmpty_def)
  next
    case True
    then have "p \<noteq> []" by (rule supported_nonempty)
    then show ?thesis using Some True
      by (simp add: handleAuth_def orEmpty_def truthy_def Let_def)
  qed
qed

lemma authorize_github:
  "authorize request env ''github'' rp uuid =
     (if \<not> truthy (GITHUB_CLIENT_ID env) \<or> \<not> truthy (GITHUB_CLIENT_SECRET env)
      then Inr (outputHTML (misconfiguredClient rp) env)
      else newResponse [] 302
             [(''Location'', githubAuthURL env (removeHyphens uuid)),
              (''Set-Cookie'', issueCookie ''github'' (removeHyphens uuid))])"
  by (simp add: authorize_def Let_def arrayIncludes_def supportedProviders_def)

lemma authorize_gitlab:
  "authorize request env ''gitlab'' rp uuid =
     (if \<not> truthy (GITLAB_CLIENT_ID env) \<or> \<not> truthy (GITLAB_CLIENT_SECRET env)
      then Inr (outputHTML (misconfiguredClient rp) env)
      else newResponse [] 302
             [(''Location'', gitlabAuthURL request env (removeHyphens uuid)),
              (''Set-Cookie'', issueCookie ''gitlab'' (removeHyphens uuid))])"
  by (simp add: authorize_def Let_def arrayIncludes_def supportedProviders_def)

lemma authorize_bitbucket:
  "authorize request env ''bitbucket'' rp uuid = Inr (outputHTML (bitbucketUnsupported rp) env)"
  by (simp add: authorize_def Let_def)

lemma exchange_bitbucket:
  "exchange request env net ''bitbucket'' cp authCode = outputHTML (bitbucketUnsupported cp) env"
  by (simp add: exchange_def Let_def)

lemma exchange_github:
  "exchange request env net ''github'' cp authCode =
     (if \<not> truthy (GITHUB_CLIENT_ID env) \<or> \<not> truthy (GITHUB_CLIENT_SECRET env)
      then outputHTML (misconfiguredClient cp) env
      else requestToken env net cp
             (''https://'' @ withDefault (GITHUB_HOSTNAME env) ''github.com'' @ ''/login/oauth/access_token'')
             [(''code'', authCode),
              (''client_id'', orEmpty (GITHUB_CLIENT_ID env)),
              (''client_secret'', orEmpty (GITHUB_CLIENT_SECRET env))])"
  by (simp add: exchange_def Let_def)

lemma exchange_gitlab:
  "exchange request env net ''gitlab'' cp authCode =
     (if \<not> truthy (GITLAB_CLIENT_ID env) \<or> \<not> truthy (GITLAB_CLIENT_SECRET env)
      then outputHTML (misconfiguredClient cp) env
      else requestToken env net cp
             (''https://'' @ withDefault (GITLAB_HOSTNAME env) ''gitlab.com'' @ ''/oauth/token'')
             [(''code'', authCode),
              (''client_id'', orEmpty (GITLAB_CLIENT_ID env)),
              (''client_secret'', orEmpty (GITLAB_CLIENT_SECRET env)),
              (''grant_type'', ''authorization_code''),
              (''redirect_uri'', origin request @ ''/callback'')])"
  by (simp add: exchange_def Let_def)

lemma requestToken_is_page: "\<exists>opts. requestToken env net cp url b = outputHTML opts env"
  by (auto simp: requestToken_def split: option.splits TokenBody.splits)

lemma exchange_is_page:
  "arrayIncludes supportedProviders p \<Longrightarrow> \<exists>opts. exchange request env net p cp c = outputHTML opts env"
  unfolding supported_cases
  by (auto simp: exchange_github exchange_gitlab exchange_bitbucket requestToken_is_page)

lemma handleCallback_is_page: "\<exists>opts. handleCallback request env net = outputHTML opts env"
  by (auto simp: handleCallback_unfold exchange_is_page split: option.splits)

lemma normalizeValue_id:
  assumes "v \<noteq> []" and "\<not> isHTTPWhitespace (hd v)" and "\<not> isHTTPWhitespace (last v)"
  shows "normalizeValue v = v"
proof -
  have a: "dropWhile isHTTPWhitespace v = v"
    using assms(1,2) by (cases v) simp_all
  obtain x xs where r: "rev v = x # xs"
    using assms(1) by (cases "rev v") auto
  have "x = last v"
    using r assms(1) by (metis hd_rev list.sel(1))
  then have "dropWhile isHTTPWhitespace (x # xs) = x # xs"
    using assms(3) by simp
  then have "dropWhile isHTTPWhitespace (rev v) = rev v"
    by (simp only: r)
  then show ?thesis
    by (simp add: normalizeValue_def a)
qed

lemma normalizeValue_issueCookie: "normalizeValue (issueCookie p t) = issueCookie p t"
  by (rule normalizeValue_id) (simp_all add: issueCookie_def isHTTPWhitespace_def charCode_def)


lemma newResponse_redirect:
  "newResponse [] 302 [(''Location'', url), (''Set-Cookie'', issueCookie p t)] =
     (if isHeaderValue (normalizeValue url) \<and> isHeaderValue (issueCookie p t)
      then Inr \<lparr> status = 302, body = [],
                 headers = [(''Location'', normalizeValue url),
                            (''Set-Cookie'', issueCookie p t),
                            (''Content-Type'', ''text/plain;charset=UTF-8'')] \<rparr>
      else Inl TypeError)"
  by (simp add: newResponse_def Let_def normalizeValue_issueCookie)

lemma newResponse_redirect_cases:
  "(\<exists>r. newResponse [] 302 [(''Location'', url), (''Set-Cookie'', issueCookie p t)] = Inr r
        \<and> status r = 302 \<and> body r = []
        \<and> headers r = [(''Location'', normalizeValue url), (''Set-Cookie'', issueCookie p t),
                        (''Content-Type'', ''text/plain;charset=UTF-8'')])
   \<or> newResponse [] 302 [(''Location'', url), (''Set-Cookie'', issueCookie p t)] = Inl TypeError"
  by (simp add: newResponse_redirect)

lemma outputHTML_newResponse:
  "newResponse (page (outputProvider opts) (outputState opts) (JSON_stringify (outputContent opts)))
     200
     [(''Content-Type'', ''text/html;charset=UTF-8''), (''Set-Cookie'', deleteCookie env)]
   = Inr (outputHTML opts env)"
proof -
  have a: "normalizeValue ''text/html;charset=UTF-8'' = ''text/html;charset=UTF-8''"
    by (rule normalizeValue_id) (simp_all add: isHTTPWhitespace_def charCode_def)
  have b: "normalizeValue (deleteCookie env) = deleteCookie env"
    by (rule normalizeValue_id)
       (simp_all add: deleteCookie_def secureAttr_def isHTTPWhitespace_def charCode_def)
  have c: "isHeaderValue (deleteCookie env)"
    by (simp add: deleteCookie_def secureAttr_def isHeaderValue_def charCode_def)
  have d: "isHeaderValue ''text/html;charset=UTF-8''"
    by (simp add: isHeaderValue_def charCode_def)
  show ?thesis
    by (simp add: newResponse_def Let_def a b c d outputHTML_def)
qed

lemma authorize_page_or_redirect:
  assumes "arrayIncludes supportedProviders p"
  shows "case authorize request env p rp uuid of
           Inl e \<Rightarrow> True
         | Inr r \<Rightarrow> status r = 302 \<or> (\<exists>opts. r = outputHTML opts env)"
proof -
  from assms consider "p = ''github''" | "p = ''gitlab''" | "p = ''bitbucket''"
    unfolding supported_cases by blast
  then show ?thesis
  proof cases
    case 1
    then show ?thesis
      using newResponse_redirect_cases[of "githubAuthURL env (removeHyphens uuid)" "''github''" "removeHyphens uuid"]
      by (auto simp: authorize_github)
  next
    case 2
    then show ?thesis
      using newResponse_redirect_cases[of "gitlabAuthURL request env (removeHyphens uuid)" "''gitlab''" "removeHyphens uuid"]
      by (auto simp: authorize_gitlab)
  next
    case 3
    then show ?thesis
      by (auto simp: authorize_bitbucket)
  qed
qed

lemma handleAuth_page_or_redirect:
  "case handleAuth request env uuid of
     Inl e \<Rightarrow> True
   | Inr r \<Rightarrow> status r = 302 \<or> (\<exists>opts. r = outputHTML opts env)"
proof (cases "searchGet request ''provider''")
  case None
  then show ?thesis by (auto simp: handleAuth_unfold)
next
  case (Some p)
  then show ?thesis
    using authorize_page_or_redirect[where p = p and rp = p and request = request
        and env = env and uuid = uuid]
    by (auto simp: handleAuth_unfold)
qed

section \<open>Pages and their headers\<close>

lemma page_json_inject: "page p st j = page p st j' \<Longrightarrow> j = j'"
  by (simp add: page_def nl_def sq_def)

lemma status_outputHTML: "status (outputHTML opts env) = 200"
  by (simp add: outputHTML_def)

lemma headers_outputHTML:
  "headers (outputHTML opts env) =
     [(''Content-Type'', ''text/html;charset=UTF-8''), (''Set-Cookie'', deleteCookie env)]"
  by (simp add: outputHTML_def)

lemma setCookies_outputHTML: "setCookies (outputHTML opts env) = [deleteCookie env]"
  by (simp add: setCookies_def outputHTML_def)

lemma body_error_page:
  "e \<noteq> [] \<Longrightarrow>
   body (outputHTML \<lparr> provider = Some p, token = tk, error = Some e, errorCode = c \<rparr> env) =
     page p ''error'' (JSON_stringify (ContentError p e c))"
  by (simp add: outputHTML_def outputProvider_def outputState_def outputContent_def truthy_def orEmpty_def)

lemmas json_defs = JSON_stringify_def jsonObject_def jsonProperty_def jsonString_def
  jsonEscapeChar_def charCode_def

lemma authCodeRequestFailed_neq_csrfDetected:
  "outputHTML (authCodeRequestFailed p) env \<noteq> outputHTML (csrfDetected p) env"
proof
  assume "outputHTML (authCodeRequestFailed p) env = outputHTML (csrfDetected p) env"
  then have "body (outputHTML (authCodeRequestFailed p) env) = body (outputHTML (csrfDetected p) env)"
    by simp
  then have "JSON_stringify (ContentError p ''Failed to receive an authorization code. Please try again later.'' (Some ''AUTH_CODE_REQUEST_FAILED''))
     = JSON_stringify (ContentError p ''Potential CSRF attack detected. Authentication flow aborted.'' (Some ''CSRF_DETECTED''))"
    unfolding authCodeRequestFailed_def csrfDetected_def
    by (simp only: body_error_page list.distinct not_False_eq_True) (rule page_json_inject)
  then show False by (simp add: json_defs)
qed

lemma pages_neq_misconfigured:
  "outputHTML (unsupportedDomain p) env \<noteq> outputHTML (misconfiguredClient p) env"
  "outputHTML (bitbucketUnsupported p) env \<noteq> outputHTML (misconfiguredClient p) env"
  "outputHTML (authCodeRequestFailed p) env \<noteq> outputHTML (misconfiguredClient p) env"
  "outputHTML (csrfDetected p) env \<noteq> outputHTML (misconfiguredClient p) env"
proof -
  have neq: "outputHTML \<lparr> provider = Some p, token = None, error = Some e, errorCode = Some c \<rparr> env
      \<noteq> outputHTML (misconfiguredClient p) env"
    if "e \<noteq> []"
      and "JSON_stringify (ContentError p e (Some c))
        \<noteq> JSON_stringify (ContentError p ''OAuth app client ID or secret is not configured.'' (Some ''MISCONFIGURED_CLIENT''))"
    for e c
  proof
    assume "outputHTML \<lparr> provider = Some p, token = None, error = Some e, errorCode = Some c \<rparr> env
      = outputHTML (misconfiguredClient p) env"
    then have "body (outputHTML \<lparr> provider = Some p, token = None, error = Some e, errorCode = Some c \<rparr> env)
      = body (outputHTML (misconfiguredClient p) env)" by simp
    then have "page p ''error'' (JSON_stringify (ContentError p e (Some c)))
      = page p ''error'' (JSON_stringify (ContentError p ''OAuth app client ID or secret is not configured.'' (Some ''MISCONFIGURED_CLIENT'')))"
      using that(1) by (simp add: misconfiguredClient_def body_error_page)
    then show False using that(2) page_json_inject by blast
  qed
  show "outputHTML (unsupportedDomain p) env \<noteq> outputHTML (misconfiguredClient p) env"
    unfolding unsupportedDomain_def by (rule neq) (simp_all add: json_defs)
  show "outputHTML (bitbucketUnsupported p) env \<noteq> outputHTML (misconfiguredClient p) env"
    unfolding bitbucketUnsupported_def by (rule neq) (simp_all add: json_defs)
  show "outputHTML (authCodeRequestFailed p) env \<noteq> outputHTML (misconfiguredClient p) env"
    unfolding authCodeRequestFailed_def by (rule neq) (simp_all add: json_defs)
  show "outputHTML (csrfDetected p) env \<noteq> outputHTML (misconfiguredClient p) env"
    unfolding csrfDetected_def by (rule neq) (simp_all add: json_defs)
qed

lemma outputContent_error:
  "e \<noteq> [] \<Longrightarrow>
   outputContent \<lparr> provider = Some p, token = tk, error = Some e, errorCode = c \<rparr> = ContentError p e c"
  by (simp add: outputContent_def outputProvider_def truthy_def orEmpty_def)

section \<open>The claims\<close>

text \<open>
  Claim C3. Every response that \<open>outputHTML\<close> builds has the header
  \<open>Content-Type: text/html;charset=UTF-8\<close> and a \<open>Set-Cookie\<close> header that deletes
  the \<open>csrf-token\<close> cookie with \<open>Max-Age=0\<close>, with \<open>Secure\<close> appended unless
  \<open>INSECURE_COOKIES\<close> is \<open>1\<close>. This covers every path of both operations: every
  response of \<open>handleCallback\<close> is such a page, and every response of \<open>handleAuth\<close>
  is such a page or the 302 redirect. The page is what the \<open>Response\<close> constructor
  builds from the body and the two headers.
\<close>

theorem outputHTML_headers:
  "headers (outputHTML opts env) =
     [(''Content-Type'', ''text/html;charset=UTF-8''),
      (''Set-Cookie'',
       ''csrf-token=deleted; HttpOnly; Max-Age=0; Path=/; SameSite=Lax''
         @ (if INSECURE_COOKIES env = Some ''1'' then [] else ''; Secure''))]
   \<and> (\<exists>opts'. handleCallback request env net = outputHTML opts' env)
   \<and> (case handleAuth request env uuid of
          Inl e \<Rightarrow> True
        | Inr r \<Rightarrow> status r = 302 \<or> (\<exists>opts'. r = outputHTML opts' env))
   \<and> newResponse
         (page (outputProvider opts) (outputState opts) (JSON_stringify (outputContent opts)))
         200
         [(''Content-Type'', ''text/html;charset=UTF-8''),
          (''Set-Cookie'',
           ''csrf-token=deleted; HttpOnly; Max-Age=0; Path=/; SameSite=Lax''
             @ (if INSECURE_COOKIES env = Some ''1'' then [] else ''; Secure''))]
       = Inr (outputHTML opts env)"
proof -
  have d: "deleteCookie env =
      ''csrf-token=deleted; HttpOnly; Max-Age=0; Path=/; SameSite=Lax''
        @ (if INSECURE_COOKIES env = Some ''1'' then [] else ''; Secure'')"
    by (simp add: deleteCookie_def secureAttr_def)
  show ?thesis
    using handleCallback_is_page[of request env net]
      handleAuth_page_or_redirect[where request = request and env = env and uuid = uuid]
      outputHTML_newResponse[of opts env]
    unfolding d by (simp add: headers_outputHTML d)
qed

theorem outputHTML_headers_witness:
  "headers (outputHTML unsupportedBackend localEnv) =
     [(''Content-Type'', ''text/html;charset=UTF-8''),
      (''Set-Cookie'', ''csrf-token=deleted; HttpOnly; Max-Age=0; Path=/; SameSite=Lax'')]"
  using outputHTML_headers[of unsupportedBackend localEnv]
  by (simp add: localEnv_def)

text \<open>
  Claim C9. When the \<open>provider\<close> parameter is absent or is not one of \<open>github\<close>,
  \<open>gitlab\<close>, \<open>bitbucket\<close>, \<open>handleAuth\<close> renders the error page with error code
  \<open>UNSUPPORTED_BACKEND\<close>; when the cookie is absent, is not recognised, or names a
  provider outside the three, \<open>handleCallback\<close> renders the same page. The page
  reports the provider as \<open>unknown\<close>, and the only \<open>Set-Cookie\<close> it carries is the
  deletion cookie with \<open>Max-Age=0\<close>.
\<close>

theorem unknown_provider_unsupported:
  "(\<not> arrayIncludes supportedProviders (orEmpty (searchGet request ''provider''))
      \<longrightarrow> handleAuth request env uuid = Inr (outputHTML unsupportedBackend env))
   \<and> ((case cookieMatch (cookieHeader callback) of
          None \<Rightarrow> True
        | Some (p, t) \<Rightarrow> \<not> arrayIncludes supportedProviders p)
      \<longrightarrow> handleCallback callback env net = outputHTML unsupportedBackend env)
   \<and> outputContent unsupportedBackend =
        ContentError ''unknown'' ''Your Git backend is not supported by the authenticator.''
          (Some ''UNSUPPORTED_BACKEND'')
   \<and> setCookies (outputHTML unsupportedBackend env) =
        [''csrf-token=deleted; HttpOnly; Max-Age=0; Path=/; SameSite=Lax'' @ secureAttr env]"
proof (intro conjI impI)
  assume "\<not> arrayIncludes supportedProviders (orEmpty (searchGet request ''provider''))"
  then show "handleAuth request env uuid = Inr (outputHTML unsupportedBackend env)"
    by (cases "searchGet request ''provider''") (simp_all add: handleAuth_unfold orEmpty_def)
next
  assume "case cookieMatch (cookieHeader callback) of
          None \<Rightarrow> True
        | Some (p, t) \<Rightarrow> \<not> arrayIncludes supportedProviders p"
  then show "handleCallback callback env net = outputHTML unsupportedBackend env"
    by (cases "cookieMatch (cookieHeader callback)") (auto simp: handleCallback_unfold)
next
  show "outputContent unsupportedBackend =
        ContentError ''unknown'' ''Your Git backend is not supported by the authenticator.''
          (Some ''UNSUPPORTED_BACKEND'')"
    by (simp add: outputContent_def unsupportedBackend_def truthy_def orEmpty_def outputProvider_def)
next
  show "setCookies (outputHTML unsupportedBackend env) =
        [''csrf-token=deleted; HttpOnly; Max-Age=0; Path=/; SameSite=Lax'' @ secureAttr env]"
    by (simp add: setCookies_outputHTML deleteCookie_def)
qed

theorem unknown_provider_unsupported_witness:
  "handleAuth (authRequest [(''provider'', ''gitea''), (''site_id'', ''a.example.com'')]) localEnv sampleUUID
     = Inr (outputHTML unsupportedBackend localEnv)
   \<and> handleAuth (authRequest [(''site_id'', ''a.example.com'')]) localEnv sampleUUID
     = Inr (outputHTML unsupportedBackend localEnv)
   \<and> handleCallback (callbackRequest [(''code'', ''abc''), (''state'', ''0123456789abcdef0123456789abcdef'')]
        (Some ''csrf-token=gitea_0123456789abcdef0123456789abcdef'')) localEnv noNetwork
     = outputHTML unsupportedBackend localEnv
   \<and> handleCallback (callbackRequest [(''code'', ''abc''), (''state'', ''0123456789abcdef0123456789abcdef'')]
        None) localEnv noNetwork
     = outputHTML unsupportedBackend localEnv
   \<and> setCookies (outputHTML unsupportedBackend localEnv) =
        [''csrf-token=deleted; HttpOnly; Max-Age=0; Path=/; SameSite=Lax'']"
proof -
  let ?r1 = "authRequest [(''provider'', ''gitea''), (''site_id'', ''a.example.com'')]"
  let ?r2 = "authRequest [(''site_id'', ''a.example.com'')]"
  let ?c1 = "callbackRequest [(''code'', ''abc''), (''state'', ''0123456789abcdef0123456789abcdef'')]
        (Some ''csrf-token=gitea_0123456789abcdef0123456789abcdef'')"
  let ?c2 = "callbackRequest [(''code'', ''abc''), (''state'', ''0123456789abcdef0123456789abcdef'')] None"
  have r1: "\<not> arrayIncludes supportedProviders (orEmpty (searchGet ?r1 ''provider''))"
    by code_simp
  have r2: "\<not> arrayIncludes supportedProviders (orEmpty (searchGet ?r2 ''provider''))"
    by code_simp
  have c1: "case cookieMatch (cookieHeader ?c1) of
          None \<Rightarrow> True | Some (p, t) \<Rightarrow> \<not> arrayIncludes supportedProviders p"
    by code_simp
  have c2: "case cookieMatch (cookieHeader ?c2) of
          None \<Rightarrow> True | Some (p, t) \<Rightarrow> \<not> arrayIncludes supportedProviders p"
    by code_simp
  have s: "secureAttr localEnv = []"
    by (simp add: secureAttr_def localEnv_def)
  from unknown_provider_unsupported[of ?r1 localEnv sampleUUID ?c1 noNetwork] r1 c1
       unknown_provider_unsupported[of ?r2 localEnv sampleUUID ?c2 noNetwork] r2 c2 s
  show ?thesis by simp
qed

text \<open>
  Claim C8. For \<open>provider=bitbucket\<close>, \<open>handleAuth\<close> renders the error page with
  error code \<open>UNSUPPORTED_BACKEND\<close> once the domain has passed the allow-list (and the
  \<open>UNSUPPORTED_DOMAIN\<close> page otherwise); for a cookie of provider \<open>bitbucket\<close>,
  \<open>handleCallback\<close> renders it once the code and state checks and the CSRF check
  have passed. This holds for every configuration, and neither handler returns the
  \<open>MISCONFIGURED_CLIENT\<close> page for bitbucket.
\<close>

theorem bitbucket_unsupported:
  "(searchGet request ''provider'' = Some ''bitbucket'' \<longrightarrow>
      handleAuth request env uuid =
        (if truthy (ALLOWED_DOMAINS env)
            \<and> \<not> domainAllowed (orEmpty (ALLOWED_DOMAINS env)) (searchGet request ''site_id'')
         then Inr (outputHTML (unsupportedDomain ''bitbucket'') env)
         else Inr (outputHTML (bitbucketUnsupported ''bitbucket'') env))
      \<and> handleAuth request env uuid \<noteq> Inr (outputHTML (misconfiguredClient ''bitbucket'') env))
   \<and> (cookieMatch (cookieHeader callback) = Some (''bitbucket'', t) \<longrightarrow>
      handleCallback callback env net =
        (if \<not> truthy (searchGet callback ''code'') \<or> \<not> truthy (searchGet callback ''state'')
         then outputHTML (authCodeRequestFailed ''bitbucket'') env
         else if searchGet callback ''state'' \<noteq> Some t
         then outputHTML (csrfDetected ''bitbucket'') env
         else outputHTML (bitbucketUnsupported ''bitbucket'') env)
      \<and> handleCallback callback env net \<noteq> outputHTML (misconfiguredClient ''bitbucket'') env)
   \<and> outputContent (bitbucketUnsupported ''bitbucket'') =
        ContentError ''bitbucket'' ''Bitbucket OAuth is not yet supported.'' (Some ''UNSUPPORTED_BACKEND'')"
proof (intro conjI impI)
  assume p: "searchGet request ''provider'' = Some ''bitbucket''"
  have inc: "arrayIncludes supportedProviders ''bitbucket''"
    by (simp add: supported_cases)
  show a: "handleAuth request env uuid =
        (if truthy (ALLOWED_DOMAINS env)
            \<and> \<not> domainAllowed (orEmpty (ALLOWED_DOMAINS env)) (searchGet request ''site_id'')
         then Inr (outputHTML (unsupportedDomain ''bitbucket'') env)
         else Inr (outputHTML (bitbucketUnsupported ''bitbucket'') env))"
    using p inc by (simp add: handleAuth_unfold authorize_bitbucket)
  show "handleAuth request env uuid \<noteq> Inr (outputHTML (misconfiguredClient ''bitbucket'') env)"
    unfolding a by (simp add: pages_neq_misconfigured)
next
  assume c: "cookieMatch (cookieHeader callback) = Some (''bitbucket'', t)"
  have inc: "arrayIncludes supportedProviders ''bitbucket''"
    by (simp add: supported_cases)
  show a: "handleCallback callback env net =
        (if \<not> truthy (searchGet callback ''code'') \<or> \<not> truthy (searchGet callback ''state'')
         then outputHTML (authCodeRequestFailed ''bitbucket'') env
         else if searchGet callback ''state'' \<noteq> Some t
         then outputHTML (csrfDetected ''bitbucket'') env
         else outputHTML (bitbucketUnsupported ''bitbucket'') env)"
    using c inc by (simp add: handleCallback_unfold exchange_bitbucket)
  show "handleCallback callback env net \<noteq> outputHTML (misconfiguredClient ''bitbucket'') env"
    unfolding a by (simp add: pages_neq_misconfigured)
next
  show "outputContent (bitbucketUnsupported ''bitbucket'') =
        ContentError ''bitbucket'' ''Bitbucket OAuth is not yet supported.'' (Some ''UNSUPPORTED_BACKEND'')"
    by (simp add: bitbucketUnsupported_def outputContent_error)
qed

theorem bitbucket_unsupported_witness:
  "BITBUCKET_CLIENT_ID localEnv = Some ''bid''
   \<and> BITBUCKET_CLIENT_SECRET localEnv = Some ''bsecret''
   \<and> handleAuth (authRequest [(''provider'', ''bitbucket''), (''site_id'', ''a.example.com'')]) localEnv sampleUUID
       = Inr (outputHTML (bitbucketUnsupported ''bitbucket'') localEnv)
   \<and> handleCallback (callbackRequest [(''code'', ''abc''), (''state'', ''0123456789abcdef0123456789abcdef'')]
        (Some ''csrf-token=bitbucket_0123456789abcdef0123456789abcdef'')) localEnv noNetwork
       = outputHTML (bitbucketUnsupported ''bitbucket'') localEnv"
proof -
  let ?r = "authRequest [(''provider'', ''bitbucket''), (''site_id'', ''a.example.com'')]"
  let ?c = "callbackRequest [(''code'', ''abc''), (''state'', ''0123456789abcdef0123456789abcdef'')]
        (Some ''csrf-token=bitbucket_0123456789abcdef0123456789abcdef'')"
  have r: "searchGet ?r ''provider'' = Some ''bitbucket''"
    by code_simp
  have d: "domainAllowed (orEmpty (ALLOWED_DOMAINS localEnv)) (searchGet ?r ''site_id'')"
    by code_simp
  have c: "cookieMatch (cookieHeader ?c) = Some (''bitbucket'', ''0123456789abcdef0123456789abcdef'')"
    by code_simp
  have q: "truthy (searchGet ?c ''code'')" "truthy (searchGet ?c ''state'')"
    "searchGet ?c ''state'' = Some ''0123456789abcdef0123456789abcdef''"
    by code_simp+
  have e: "BITBUCKET_CLIENT_ID localEnv = Some ''bid''" "BITBUCKET_CLIENT_SECRET localEnv = Some ''bsecret''"
    by (simp_all add: localEnv_def)
  from bitbucket_unsupported[of ?r localEnv sampleUUID ?c "''0123456789abcdef0123456789abcdef''" noNetwork]
    r d c q e
  show ?thesis by simp
qed

text \<open>
  Claim C4. When the cookie carries a recognised provider and the \<open>code\<close> or the
  \<open>state\<close> query parameter is missing (or empty), \<open>handleCallback\<close> renders the error
  page with error code \<open>AUTH_CODE_REQUEST_FAILED\<close>, whose only \<open>Set-Cookie\<close> deletes
  the cookie with \<open>Max-Age=0\<close>. The check comes before the CSRF comparison: the
  response is not the \<open>CSRF_DETECTED\<close> page.
\<close>

theorem callback_missing_code_or_state:
  assumes "cookieMatch (cookieHeader callback) = Some (p, t)"
    and "arrayIncludes supportedProviders p"
    and "\<not> truthy (searchGet callback ''code'') \<or> \<not> truthy (searchGet callback ''state'')"
  shows "handleCallback callback env net = outputHTML (authCodeRequestFailed p) env
    \<and> outputContent (authCodeRequestFailed p) =
        ContentError p ''Failed to receive an authorization code. Please try again later.''
          (Some ''AUTH_CODE_REQUEST_FAILED'')
    \<and> setCookies (handleCallback callback env net) =
        [''csrf-token=deleted; HttpOnly; Max-Age=0; Path=/; SameSite=Lax'' @ secureAttr env]
    \<and> handleCallback callback env net \<noteq> outputHTML (csrfDetected p) env"
proof -
  have a: "handleCallback callback env net = outputHTML (authCodeRequestFailed p) env"
    using assms by (auto simp: handleCallback_unfold)
  have b: "outputContent (authCodeRequestFailed p) =
        ContentError p ''Failed to receive an authorization code. Please try again later.''
          (Some ''AUTH_CODE_REQUEST_FAILED'')"
    by (simp add: authCodeRequestFailed_def outputContent_error)
  show ?thesis
    unfolding a using b
    by (simp add: setCookies_outputHTML deleteCookie_def authCodeRequestFailed_neq_csrfDetected)
qed

theorem callback_missing_code_or_state_witness:
  "handleCallback (callbackRequest [(''code'', ''abc'')]
      (Some ''csrf-token=github_0123456789abcdef0123456789abcdef'')) localEnv noNetwork
     = outputHTML (authCodeRequestFailed ''github'') localEnv
   \<and> setCookies (handleCallback (callbackRequest [(''code'', ''abc'')]
      (Some ''csrf-token=github_0123456789abcdef0123456789abcdef'')) localEnv noNetwork)
     = [''csrf-token=deleted; HttpOnly; Max-Age=0; Path=/; SameSite=Lax'']"
proof -
  let ?c = "callbackRequest [(''code'', ''abc'')]
      (Some ''csrf-token=github_0123456789abcdef0123456789abcdef'')"
  have c: "cookieMatch (cookieHeader ?c) = Some (''github'', ''0123456789abcdef0123456789abcdef'')"
    by code_simp
  have p: "arrayIncludes supportedProviders ''github''"
    by code_simp
  have q: "\<not> truthy (searchGet ?c ''code'') \<or> \<not> truthy (searchGet ?c ''state'')"
    by code_simp
  have s: "secureAttr localEnv = []"
    by (simp add: secureAttr_def localEnv_def)
  from callback_missing_code_or_state[OF c p q, of localEnv noNetwork] s
  show ?thesis by (simp add: setCookies_outputHTML deleteCookie_def)
qed

lemma matchToken_exact:
  "length t = 32 \<Longrightarrow> list_all isHexChar t \<Longrightarrow> boundaryAfter post \<Longrightarrow>
   matchToken (''_'' @ t @ post) = Some t"
  by (simp add: matchToken_def)

lemma cookieMatch_minted:
  assumes "arrayIncludes supportedProviders p" and "length t = 32" and "list_all isHexChar t"
    and "boundaryAfter post"
  shows "cookieMatch (Some (''csrf-token='' @ p @ ''_'' @ t @ post)) = Some (p, t)"
proof -
  have tok: "matchToken (CHR ''_'' # t @ post) = Some t"
    using matchToken_exact[OF assms(2-4)] by simp
  have no: "\<And>c r. c \<noteq> CHR ''_'' \<Longrightarrow> matchToken (c # r) = None"
    by (simp add: matchToken_def)
  from assms(1) consider "p = ''github''" | "p = ''gitlab''" | "p = ''bitbucket''"
    unfolding supported_cases by blast
  then show ?thesis
  proof cases
    case 1
    then show ?thesis
      by (simp add: cookieMatch_def matchHere_def boundaryBefore_def tok no
          isProviderChar_def isLower_def charCode_def)
  next
    case 2
    then show ?thesis
      by (simp add: cookieMatch_def matchHere_def boundaryBefore_def tok no
          isProviderChar_def isLower_def charCode_def)
  next
    case 3
    then show ?thesis
      by (simp add: cookieMatch_def matchHere_def boundaryBefore_def tok no
          isProviderChar_def isLower_def charCode_def)
  qed
qed

lemma cookieMatch_token_length:
  "cookieMatch header = Some (p, t) \<Longrightarrow> length t = 32"
  by (cases header) (auto simp: cookieMatch_def dest: searchFrom_Some)

text \<open>
  Claim C1, amended. Let the cookie carry a recognised provider and the token \<open>T\<close>,
  and let \<open>code\<close> and \<open>state\<close> both be present and not empty. If \<open>state\<close> equals \<open>T\<close>,
  the CSRF check passes and \<open>handleCallback\<close> goes on to resolve the credentials and
  exchange the code; if \<open>state\<close> is any other non-empty value, it renders the error
  page with error code \<open>CSRF_DETECTED\<close>.
\<close>

theorem csrf_state_check:
  assumes "cookieMatch (cookieHeader callback) = Some (p, T)"
    and "arrayIncludes supportedProviders p"
    and "searchGet callback ''code'' = Some c" and "c \<noteq> []"
    and "searchGet callback ''state'' = Some s" and "s \<noteq> []"
  shows "(s = T \<longrightarrow> handleCallback callback env net = exchange callback env net p p c)
    \<and> (s \<noteq> T \<longrightarrow> handleCallback callback env net = outputHTML (csrfDetected p) env
          \<and> outputContent (csrfDetected p) =
              ContentError p ''Potential CSRF attack detected. Authentication flow aborted.''
                (Some ''CSRF_DETECTED''))"
  using assms
  by (simp add: handleCallback_unfold truthy_def orEmpty_def csrfDetected_def outputContent_error)

theorem csrf_state_check_witness:
  "handleCallback (callbackRequest [(''code'', ''abc''), (''state'', ''0123456789abcdef0123456789abcdef'')]
      (Some ''csrf-token=github_0123456789abcdef0123456789abcdef'')) localEnv noNetwork
     = exchange (callbackRequest [(''code'', ''abc''), (''state'', ''0123456789abcdef0123456789abcdef'')]
      (Some ''csrf-token=github_0123456789abcdef0123456789abcdef'')) localEnv noNetwork ''github'' ''github'' ''abc''
   \<and> handleCallback (callbackRequest [(''code'', ''abc''), (''state'', ''0123456789abcdef0123456789abcdee'')]
      (Some ''csrf-token=github_0123456789abcdef0123456789abcdef'')) localEnv noNetwork
     = outputHTML (csrfDetected ''github'') localEnv"
proof -
  let ?T = "''0123456789abcdef0123456789abcdef''"
  let ?S = "''0123456789abcdef0123456789abcdee''"
  let ?k = "Some ''csrf-token=github_0123456789abcdef0123456789abcdef''"
  let ?c1 = "callbackRequest [(''code'', ''abc''), (''state'', ?T)] ?k"
  let ?c2 = "callbackRequest [(''code'', ''abc''), (''state'', ?S)] ?k"
  have p: "arrayIncludes supportedProviders ''github''"
    by code_simp
  have k: "cookieMatch ?k = Some (''github'', ?T)"
    using cookieMatch_minted[OF p, of ?T "[]"]
    by (simp add: isHexChar_def isDigit_def charCode_def boundaryAfter_def)
  have k1: "cookieMatch (cookieHeader ?c1) = Some (''github'', ?T)"
    and k2: "cookieMatch (cookieHeader ?c2) = Some (''github'', ?T)"
    using k by (simp_all add: callbackRequest_def)
  have q1: "searchGet ?c1 ''code'' = Some ''abc''" "searchGet ?c1 ''state'' = Some ?T"
    and q2: "searchGet ?c2 ''code'' = Some ''abc''" "searchGet ?c2 ''state'' = Some ?S"
    by (simp_all add: callbackRequest_def searchGet_def)
  from csrf_state_check[OF k1 p q1(1) _ q1(2), of localEnv noNetwork]
       csrf_state_check[OF k2 p q2(1) _ q2(2), of localEnv noNetwork]
  show ?thesis by simp
qed

theorem csrf_empty_state_counterexample:
  "cookieMatch (cookieHeader (callbackRequest [(''code'', ''abc''), (''state'', [])]
      (Some ''csrf-token=github_0123456789abcdef0123456789abcdef'')))
     = Some (''github'', ''0123456789abcdef0123456789abcdef'')
   \<and> searchGet (callbackRequest [(''code'', ''abc''), (''state'', [])]
      (Some ''csrf-token=github_0123456789abcdef0123456789abcdef'')) ''state'' = Some []
   \<and> handleCallback (callbackRequest [(''code'', ''abc''), (''state'', [])]
      (Some ''csrf-token=github_0123456789abcdef0123456789abcdef'')) localEnv noNetwork
     = outputHTML (authCodeRequestFailed ''github'') localEnv
   \<and> handleCallback (callbackRequest [(''code'', ''abc''), (''state'', [])]
      (Some ''csrf-token=github_0123456789abcdef0123456789abcdef'')) localEnv noNetwork
     \<noteq> outputHTML (csrfDetected ''github'') localEnv"
proof -
  let ?c = "callbackRequest [(''code'', ''abc''), (''state'', [])]
      (Some ''csrf-token=github_0123456789abcdef0123456789abcdef'')"
  have k: "cookieMatch (cookieHeader ?c) = Some (''github'', ''0123456789abcdef0123456789abcdef'')"
    by code_simp
  have s: "searchGet ?c ''state'' = Some []"
    by (simp add: callbackRequest_def searchGet_def)
  have h: "handleCallback ?c localEnv noNetwork = outputHTML (authCodeRequestFailed ''github'') localEnv"
    using k s by (simp add: handleCallback_unfold supported_cases truthy_def)
  show ?thesis
    using k s h by (simp add: authCodeRequestFailed_neq_csrfDetected)
qed

lemma setCookies_redirect:
  "setCookies \<lparr> status = 302, body = [],
      headers = [(''Location'', url), (''Set-Cookie'', v),
                 (''Content-Type'', ''text/plain;charset=UTF-8'')] \<rparr> = [v]"
  by (simp add: setCookies_def)

lemma redirect_cookie:
  assumes "newResponse [] 302 [(''Location'', url), (''Set-Cookie'', issueCookie p t)] = Inr r"
  shows "setCookies r = [issueCookie p t]"
  using assms by (auto simp: newResponse_redirect setCookies_redirect split: if_splits)

text \<open>
  Claim C2, as the code has it. Whenever \<open>handleAuth\<close> answers with the 302
  redirect, its \<open>Set-Cookie\<close> header is the provider and token followed by
  \<open>HttpOnly; Path=/; Max-Age=600; SameSite=Lax; Secure\<close>: the attributes of the claim,
  but with \<open>Secure\<close> for every configuration, \<open>INSECURE_COOKIES=1\<close> included.
\<close>

theorem issued_cookie_always_secure:
  assumes "handleAuth request env uuid = Inr r" and "status r = 302"
  shows "\<exists>p. searchGet request ''provider'' = Some p \<and> arrayIncludes supportedProviders p
    \<and> setCookies r =
        [''csrf-token='' @ p @ ''_'' @ removeHyphens uuid
           @ ''; HttpOnly; Path=/; Max-Age=600; SameSite=Lax; Secure'']"
proof (cases "searchGet request ''provider''")
  case None
  with assms show ?thesis by (auto simp: handleAuth_unfold status_outputHTML)
next
  case (Some p)
  with assms have inc: "arrayIncludes supportedProviders p"
    by (auto simp: handleAuth_unfold status_outputHTML split: if_splits)
  with assms Some have a: "authorize request env p p uuid = Inr r"
    by (auto simp: handleAuth_unfold status_outputHTML split: if_splits)
  from inc consider "p = ''github''" | "p = ''gitlab''" | "p = ''bitbucket''"
    unfolding supported_cases by blast
  then have "setCookies r = [issueCookie p (removeHyphens uuid)]"
  proof cases
    case 1
    with assms(2) a show ?thesis
      by (auto simp: authorize_github status_outputHTML redirect_cookie split: if_splits)
  next
    case 2
    with assms(2) a show ?thesis
      by (auto simp: authorize_gitlab status_outputHTML redirect_cookie split: if_splits)
  next
    case 3
    with assms(2) a show ?thesis
      by (auto simp: authorize_bitbucket status_outputHTML)
  qed
  with Some inc show ?thesis by (simp add: issueCookie_def)
qed

theorem issued_cookie_always_secure_witness:
  "INSECURE_COOKIES localEnv = Some ''1''
   \<and> handleAuth (authRequest [(''provider'', ''github''), (''site_id'', ''a.example.com'')])
        localEnv sampleUUID =
      Inr \<lparr> status = 302, body = [],
            headers =
              [(''Location'',
                ''https://github.com/login/oauth/authorize?client_id=id&scope=repo%2Cuser&state=123e4567e89b42d3a456426614174000''),
               (''Set-Cookie'',
                ''csrf-token=github_123e4567e89b42d3a456426614174000; HttpOnly; Path=/; Max-Age=600; SameSite=Lax; Secure''),
               (''Content-Type'', ''text/plain;charset=UTF-8'')] \<rparr>
   \<and> setCookies \<lparr> status = 302, body = [],
            headers =
              [(''Location'',
                ''https://github.com/login/oauth/authorize?client_id=id&scope=repo%2Cuser&state=123e4567e89b42d3a456426614174000''),
               (''Set-Cookie'',
                ''csrf-token=github_123e4567e89b42d3a456426614174000; HttpOnly; Path=/; Max-Age=600; SameSite=Lax; Secure''),
               (''Content-Type'', ''text/plain;charset=UTF-8'')] \<rparr> =
      [''csrf-token=github_123e4567e89b42d3a456426614174000; HttpOnly; Path=/; Max-Age=600; SameSite=Lax; Secure'']"
proof -
  let ?r = "authRequest [(''provider'', ''github''), (''site_id'', ''a.example.com'')]"
  let ?resp = "\<lparr> status = 302, body = [],
            headers =
              [(''Location'',
                ''https://github.com/login/oauth/authorize?client_id=id&scope=repo%2Cuser&state=123e4567e89b42d3a456426614174000''),
               (''Set-Cookie'',
                ''csrf-token=github_123e4567e89b42d3a456426614174000; HttpOnly; Path=/; Max-Age=600; SameSite=Lax; Secure''),
               (''Content-Type'', ''text/plain;charset=UTF-8'')] \<rparr>"
  have e: "INSECURE_COOKIES localEnv = Some ''1''"
    by (simp add: localEnv_def)
  have h: "handleAuth ?r localEnv sampleUUID = Inr ?resp"
    by code_simp
  have s: "status ?resp = 302"
    by simp
  have p: "searchGet ?r ''provider'' = Some ''github''"
    by (simp add: authRequest_def searchGet_def)
  have u: "removeHyphens sampleUUID = ''123e4567e89b42d3a456426614174000''"
    by (simp add: removeHyphens_def sampleUUID_def)
  from issued_cookie_always_secure[OF h s] p u
  have "setCookies ?resp =
      [''csrf-token=github_123e4567e89b42d3a456426614174000; HttpOnly; Path=/; Max-Age=600; SameSite=Lax; Secure'']"
    by auto
  with e h show ?thesis by (intro conjI)
qed

text \<open>
  Claim C6, amended. Let the callback have passed the cookie, code, state and CSRF
  checks for \<open>github\<close> or \<open>gitlab\<close> with the credentials configured, and let the token
  endpoint answer. If the body cannot be parsed, the page carries the error code
  \<open>MALFORMED_RESPONSE\<close>. If the parsed body has a non-empty \<open>error\<close> and no
  \<open>access_token\<close>, the page is an error page whose content is the provider's error
  string as received, with no error code.
\<close>

theorem token_response_pages:
  assumes "cookieMatch (cookieHeader callback) = Some (p, t)"
    and "p = ''github'' \<or> p = ''gitlab''"
    and "searchGet callback ''code'' = Some c" and "c \<noteq> []"
    and "searchGet callback ''state'' = Some t"
    and "if p = ''github''
         then truthy (GITHUB_CLIENT_ID env) \<and> truthy (GITHUB_CLIENT_SECRET env)
         else truthy (GITLAB_CLIENT_ID env) \<and> truthy (GITLAB_CLIENT_SECRET env)"
  shows "handleCallback callback env (answering Unparseable) = outputHTML (malformedResponse p) env
    \<and> outputContent (malformedResponse p) =
        ContentError p ''Server responded with malformed data. Please try again later.''
          (Some ''MALFORMED_RESPONSE'')
    \<and> (e \<noteq> [] \<longrightarrow>
        handleCallback callback env (answering (Parsed None (Some e))) =
          outputHTML \<lparr> provider = Some p, token = Some [], error = Some e, errorCode = None \<rparr> env
        \<and> outputState \<lparr> provider = Some p, token = Some [], error = Some e, errorCode = None \<rparr> = ''error''
        \<and> outputContent \<lparr> provider = Some p, token = Some [], error = Some e, errorCode = None \<rparr> =
            ContentError p e None)"
proof -
  have len: "length t = 32"
    using assms(1) by (rule cookieMatch_token_length)
  then have t: "t \<noteq> []" by auto
  have inc: "arrayIncludes supportedProviders p"
    using assms(2) by (auto simp: supported_cases)
  have h: "handleCallback callback env net = exchange callback env net p p c" for net
    using assms(1,3,4,5) t inc by (simp add: handleCallback_unfold truthy_def orEmpty_def)
  have x: "exchange callback env (answering answer) p p c =
      (case answer of
         Unparseable \<Rightarrow> outputHTML (malformedResponse p) env
       | Parsed access_token err \<Rightarrow>
           outputHTML \<lparr> provider = Some p, token = Some (orEmpty access_token),
                        error = Some (orEmpty err), errorCode = None \<rparr> env)" for answer
    using assms(2,6)
    by (auto simp: exchange_github exchange_gitlab requestToken_def answering_def
        split: TokenBody.splits)
  show ?thesis
    by (simp add: h x orEmpty_def malformedResponse_def outputContent_error outputState_def truthy_def)
qed

theorem token_response_pages_witness:
  "handleCallback (callbackRequest [(''code'', ''abc''), (''state'', ''0123456789abcdef0123456789abcdef'')]
      (Some ''csrf-token=github_0123456789abcdef0123456789abcdef'')) localEnv (answering Unparseable)
     = outputHTML (malformedResponse ''github'') localEnv
   \<and> handleCallback (callbackRequest [(''code'', ''abc''), (''state'', ''0123456789abcdef0123456789abcdef'')]
      (Some ''csrf-token=github_0123456789abcdef0123456789abcdef'')) localEnv
        (answering (Parsed None (Some ''bad_verification_code'')))
     = outputHTML \<lparr> provider = Some ''github'', token = Some [],
         error = Some ''bad_verification_code'', errorCode = None \<rparr> localEnv
   \<and> outputContent \<lparr> provider = Some ''github'', token = Some [],
         error = Some ''bad_verification_code'', errorCode = None \<rparr>
     = ContentError ''github'' ''bad_verification_code'' None"
proof -
  let ?T = "''0123456789abcdef0123456789abcdef''"
  let ?c = "callbackRequest [(''code'', ''abc''), (''state'', ?T)]
      (Some ''csrf-token=github_0123456789abcdef0123456789abcdef'')"
  have k: "cookieMatch (cookieHeader ?c) = Some (''github'', ?T)"
    by code_simp
  have q: "searchGet ?c ''code'' = Some ''abc''" "searchGet ?c ''state'' = Some ?T"
    by (simp_all add: callbackRequest_def searchGet_def)
  have g: "if ''github'' = ''github''
         then truthy (GITHUB_CLIENT_ID localEnv) \<and> truthy (GITHUB_CLIENT_SECRET localEnv)
         else truthy (GITLAB_CLIENT_ID localEnv) \<and> truthy (GITLAB_CLIENT_SECRET localEnv)"
    by (simp add: localEnv_def truthy_def)
  from token_response_pages[OF k _ q(1) _ q(2) g, of "''bad_verification_code''"]
  show ?thesis by simp
qed

theorem empty_provider_error_counterexample:
  "handleCallback (callbackRequest [(''code'', ''abc''), (''state'', ''0123456789abcdef0123456789abcdef'')]
      (Some ''csrf-token=github_0123456789abcdef0123456789abcdef'')) localEnv
        (answering (Parsed None (Some [])))
     = outputHTML \<lparr> provider = Some ''github'', token = Some [], error = Some [], errorCode = None \<rparr> localEnv
   \<and> outputState \<lparr> provider = Some ''github'', token = Some [], error = Some [], errorCode = None \<rparr>
     = ''success''
   \<and> outputContent \<lparr> provider = Some ''github'', token = Some [], error = Some [], errorCode = None \<rparr>
     = ContentSuccess ''github'' (Some [])"
proof -
  let ?T = "''0123456789abcdef0123456789abcdef''"
  let ?c = "callbackRequest [(''code'', ''abc''), (''state'', ?T)]
      (Some ''csrf-token=github_0123456789abcdef0123456789abcdef'')"
  have k: "cookieMatch (cookieHeader ?c) = Some (''github'', ?T)"
    by code_simp
  have q: "searchGet ?c ''code'' = Some ''abc''" "searchGet ?c ''state'' = Some ?T"
    by (simp_all add: callbackRequest_def searchGet_def)
  have h: "handleCallback ?c localEnv (answering (Parsed None (Some []))) =
      outputHTML \<lparr> provider = Some ''github'', token = Some [], error = Some [], errorCode = None \<rparr> localEnv"
    using k q
    by (simp add: handleCallback_unfold supported_cases truthy_def orEmpty_def exchange_github
        requestToken_def answering_def localEnv_def)
  show ?thesis
    using h by (simp add: outputState_def outputContent_def truthy_def outputProvider_def)
qed

text \<open>
  Claim C10, amended. \<open>handleCallback\<close> recognises the CSRF cookie only when the
  \<open>Cookie\<close> header contains \<open>csrf-token=\<close>, one or more lower-case letters or hyphens,
  an underscore and 32 lower-case hexadecimal digits, with a word boundary on both
  sides: nothing or a character outside \<open>[A-Za-z0-9_]\<close> before \<open>csrf-token\<close> and after
  the 32nd digit. When the header has no such substring (or is absent), the cookie
  counts as absent and the response is the \<open>UNSUPPORTED_BACKEND\<close> page with provider
  \<open>unknown\<close>, whatever \<open>code\<close> and \<open>state\<close> are: the CSRF comparison is not
  reached. A token segment that goes on after its 32 digits with a character outside
  \<open>[A-Za-z0-9_]\<close> is still recognised, with the 32 digits as the token.
\<close>

theorem cookie_recognised_only_in_shape:
  "(cookieMatch (Some h) = Some (p, t) \<longrightarrow>
      (\<exists>pre post. h = pre @ ''csrf-token='' @ p @ ''_'' @ t @ post
         \<and> p \<noteq> [] \<and> list_all isProviderChar p
         \<and> length t = 32 \<and> list_all isHexChar t
         \<and> (pre = [] \<or> \<not> isWordChar (last pre))
         \<and> (post = [] \<or> \<not> isWordChar (hd post))))
   \<and> (cookieMatch (cookieHeader callback) = None \<longrightarrow>
      handleCallback callback env net = outputHTML unsupportedBackend env
      \<and> outputContent unsupportedBackend =
          ContentError ''unknown'' ''Your Git backend is not supported by the authenticator.''
            (Some ''UNSUPPORTED_BACKEND''))"
proof (intro conjI impI)
  assume "cookieMatch (Some h) = Some (p, t)"
  then have "searchFrom None h = Some (p, t)"
    by (simp add: cookieMatch_def)
  from searchFrom_Some[OF this] obtain pre post where
    h: "h = pre @ ''csrf-token='' @ p @ ''_'' @ t @ post"
    and b: "boundaryBefore (if pre = [] then None else Some (last pre))"
    and r: "p \<noteq> []" "list_all isProviderChar p" "length t = 32" "list_all isHexChar t"
    and a: "boundaryAfter post"
    by blast
  from b have b': "pre = [] \<or> \<not> isWordChar (last pre)"
    by (auto simp: boundaryBefore_def split: if_splits)
  from a have a': "post = [] \<or> \<not> isWordChar (hd post)"
    by (cases post) (auto simp: boundaryAfter_def)
  from h r a' b'
  show "\<exists>pre post. h = pre @ ''csrf-token='' @ p @ ''_'' @ t @ post
         \<and> p \<noteq> [] \<and> list_all isProviderChar p
         \<and> length t = 32 \<and> list_all isHexChar t
         \<and> (pre = [] \<or> \<not> isWordChar (last pre))
         \<and> (post = [] \<or> \<not> isWordChar (hd post))"
    by blast
next
  assume "cookieMatch (cookieHeader callback) = None"
  then show "handleCallback callback env net = outputHTML unsupportedBackend env"
    by (simp add: handleCallback_unfold)
next
  show "outputContent unsupportedBackend =
          ContentError ''unknown'' ''Your Git backend is not supported by the authenticator.''
            (Some ''UNSUPPORTED_BACKEND'')"
    by (simp add: outputContent_def unsupportedBackend_def truthy_def orEmpty_def outputProvider_def)
qed

theorem cookie_recognised_only_in_shape_witness:
  "(\<exists>pre post. ''a=b; csrf-token=github_0123456789abcdef0123456789abcdef; x=y''
        = pre @ ''csrf-token='' @ ''github'' @ ''_'' @ ''0123456789abcdef0123456789abcdef'' @ post
         \<and> ''github'' \<noteq> [] \<and> list_all isProviderChar ''github''
         \<and> length ''0123456789abcdef0123456789abcdef'' = 32
         \<and> list_all isHexChar ''0123456789abcdef0123456789abcdef''
         \<and> (pre = [] \<or> \<not> isWordChar (last pre))
         \<and> (post = [] \<or> \<not> isWordChar (hd post)))
   \<and> handleCallback (callbackRequest [(''code'', ''abc''), (''state'', ''0123456789abcdef0123456789abcdeF'')]
        (Some ''csrf-token=github_0123456789abcdef0123456789abcdeF'')) localEnv noNetwork
       = outputHTML unsupportedBackend localEnv
   \<and> handleCallback (callbackRequest [(''code'', ''abc''), (''state'', ''0123456789abcdef0123456789abcde'')]
        (Some ''csrf-token=github_0123456789abcdef0123456789abcde'')) localEnv noNetwork
       = outputHTML unsupportedBackend localEnv
   \<and> handleCallback (callbackRequest [(''code'', ''abc''), (''state'', ''0123456789abcdef0123456789abcdef0'')]
        (Some ''csrf-token=github_0123456789abcdef0123456789abcdef0'')) localEnv noNetwork
       = outputHTML unsupportedBackend localEnv
   \<and> handleCallback (callbackRequest [(''code'', ''abc''), (''state'', ''0123456789abcdef0123456789abcdeg'')]
        (Some ''csrf-token=github_0123456789abcdef0123456789abcdeg'')) localEnv noNetwork
       = outputHTML unsupportedBackend localEnv"
proof -
  let ?h = "''a=b; csrf-token=github_0123456789abcdef0123456789abcdef; x=y''"
  let ?c1 = "callbackRequest [(''code'', ''abc''), (''state'', ''0123456789abcdef0123456789abcdeF'')]
        (Some ''csrf-token=github_0123456789abcdef0123456789abcdeF'')"
  let ?c2 = "callbackRequest [(''code'', ''abc''), (''state'', ''0123456789abcdef0123456789abcde'')]
        (Some ''csrf-token=github_0123456789abcdef0123456789abcde'')"
  let ?c3 = "callbackRequest [(''code'', ''abc''), (''state'', ''0123456789abcdef0123456789abcdef0'')]
        (Some ''csrf-token=github_0123456789abcdef0123456789abcdef0'')"
  let ?c4 = "callbackRequest [(''code'', ''abc''), (''state'', ''0123456789abcdef0123456789abcdeg'')]
        (Some ''csrf-token=github_0123456789abcdef0123456789abcdeg'')"
  have m: "cookieMatch (Some ?h) = Some (''github'', ''0123456789abcdef0123456789abcdef'')"
    by code_simp
  have n1: "cookieMatch (cookieHeader ?c1) = None"
    by code_simp
  have n2: "cookieMatch (cookieHeader ?c2) = None"
    by code_simp
  have n3: "cookieMatch (cookieHeader ?c3) = None"
    by code_simp
  have n4: "cookieMatch (cookieHeader ?c4) = None"
    by code_simp
  note w0 = cookie_recognised_only_in_shape[of ?h "''github''" "''0123456789abcdef0123456789abcdef''"
      ?c1 localEnv noNetwork, THEN conjunct1, THEN mp, OF m]
  note w1 = cookie_recognised_only_in_shape[of ?h "''github''" "''0123456789abcdef0123456789abcdef''"
      ?c1 localEnv noNetwork, THEN conjunct2, THEN mp, OF n1, THEN conjunct1]
  note w2 = cookie_recognised_only_in_shape[of ?h "''github''" "''0123456789abcdef0123456789abcdef''"
      ?c2 localEnv noNetwork, THEN conjunct2, THEN mp, OF n2, THEN conjunct1]
  note w3 = cookie_recognised_only_in_shape[of ?h "''github''" "''0123456789abcdef0123456789abcdef''"
      ?c3 localEnv noNetwork, THEN conjunct2, THEN mp, OF n3, THEN conjunct1]
  note w4 = cookie_recognised_only_in_shape[of ?h "''github''" "''0123456789abcdef0123456789abcdef''"
      ?c4 localEnv noNetwork, THEN conjunct2, THEN mp, OF n4, THEN conjunct1]
  show ?thesis
    by (intro conjI) (rule w0 w1 w2 w3 w4)+
qed

theorem cookie_token_suffix_counterexample:
  "handleCallback (callbackRequest [(''code'', ''abc''), (''state'', ''x'')]
      (Some ''csrf-token=github_0123456789abcdef0123456789abcdef-x'')) localEnv noNetwork
     = outputHTML (csrfDetected ''github'') localEnv
   \<and> handleCallback (callbackRequest [(''code'', ''abc''), (''state'', ''x'')]
      (Some ''csrf-token=github_0123456789abcdef0123456789abcdef-x'')) localEnv noNetwork
     \<noteq> outputHTML unsupportedBackend localEnv"
proof -
  let ?c = "callbackRequest [(''code'', ''abc''), (''state'', ''x'')]
      (Some ''csrf-token=github_0123456789abcdef0123456789abcdef-x'')"
  have k: "cookieMatch (cookieHeader ?c) = Some (''github'', ''0123456789abcdef0123456789abcdef'')"
    by code_simp
  have q: "searchGet ?c ''code'' = Some ''abc''" "searchGet ?c ''state'' = Some ''x''"
    by (simp_all add: callbackRequest_def searchGet_def)
  have h: "handleCallback ?c localEnv noNetwork = outputHTML (csrfDetected ''github'') localEnv"
    using k q by (simp add: handleCallback_unfold supported_cases truthy_def)
  have "body (outputHTML (csrfDetected ''github'') localEnv) \<noteq> body (outputHTML unsupportedBackend localEnv)"
    by (simp add: outputHTML_def csrfDetected_def unsupportedBackend_def outputProvider_def
        outputState_def truthy_def page_def nl_def sq_def)
  then have "outputHTML (csrfDetected ''github'') localEnv \<noteq> outputHTML unsupportedBackend localEnv"
    by auto
  with h show ?thesis by simp
qed























section \<open>The allow-list pattern against the specification\<close>

lemma special_chars:
  "regExpSpecial backslash" "regExpSpecial (CHR ''*'')" "regExpSpecial (CHR ''.'')"
  "regExpSpecial (CHR ''+'')"
  by (simp_all add: regExpSpecial_def)

lemma backslash_neq: "backslash \<noteq> CHR ''*''" "backslash \<noteq> CHR ''.''" "CHR ''.'' \<noteq> backslash"
  by (simp_all add: backslash_def)

lemma escapeRegExp_Nil: "escapeRegExp [] = []"
  by (simp add: escapeRegExp_def)

lemma escapeRegExp_Cons:
  "escapeRegExp (c # s) = (if regExpSpecial c then backslash # c # escapeRegExp s else c # escapeRegExp s)"
  by (simp add: escapeRegExp_def)

lemma escapeRegExp_no_star_head: "escapeRegExp s \<noteq> CHR ''*'' # r"
  by (cases s) (auto simp: escapeRegExp_Nil escapeRegExp_Cons backslash_neq special_chars)

lemma replaceFirst_escape_Cons:
  "replaceFirst [backslash, CHR ''*''] ''.+'' (escapeRegExp (c # s)) =
     (if c = CHR ''*'' then ''.+'' @ escapeRegExp s
      else escapeRegExp [c] @ replaceFirst [backslash, CHR ''*''] ''.+'' (escapeRegExp s))"
proof (cases "c = CHR ''*''")
  case True
  then show ?thesis by (simp add: escapeRegExp_Cons special_chars)
next
  case False
  show ?thesis
  proof (cases "regExpSpecial c")
    case True
    have "take (Suc 0) (escapeRegExp s) \<noteq> [CHR ''*'']"
      using escapeRegExp_no_star_head[of s] by (cases "escapeRegExp s") auto
    then show ?thesis using True False
      by (simp add: escapeRegExp_Cons escapeRegExp_Nil)
  next
    case nonspecial: False
    then have "c \<noteq> backslash" using special_chars(1) by auto
    then show ?thesis using nonspecial False
      by (simp add: escapeRegExp_Cons escapeRegExp_Nil)
  qed
qed

lemma replaceFirst_escape:
  "replaceFirst [backslash, CHR ''*''] ''.+'' (escapeRegExp s) =
     (case splitStar s of
        None \<Rightarrow> escapeRegExp s
      | Some (pre, post) \<Rightarrow> escapeRegExp pre @ ''.+'' @ escapeRegExp post)"
proof (induction s)
  case Nil
  then show ?case by (simp add: escapeRegExp_Nil)
next
  case (Cons c s)
  show ?case
  proof (cases "c = CHR ''*''")
    case True
    then show ?thesis
      by (simp only: replaceFirst_escape_Cons) (simp add: escapeRegExp_Nil)
  next
    case False
    then show ?thesis
      using Cons.IH
      by (simp only: replaceFirst_escape_Cons)
         (auto simp: escapeRegExp_Cons escapeRegExp_Nil split: option.splits)
  qed
qed

lemma compile_escape_Cons:
  "compileRegExp (escapeRegExp [c] @ rest) = map_option ((#) (Literal c)) (compileRegExp rest)"
proof (cases "regExpSpecial c")
  case True
  then show ?thesis by (simp add: escapeRegExp_Cons escapeRegExp_Nil)
next
  case False
  then have "c \<noteq> backslash" "c \<noteq> CHR ''.''" using special_chars by auto
  then show ?thesis using False
    by (cases rest) (simp_all add: escapeRegExp_Cons escapeRegExp_Nil)
qed

lemma compile_escape:
  "compileRegExp (escapeRegExp s @ rest) = map_option ((@) (map Literal s)) (compileRegExp rest)"
proof (induction s)
  case Nil
  then show ?case by (simp add: escapeRegExp_Nil option.map_ident)
next
  case (Cons c s)
  have "escapeRegExp (c # s) @ rest = escapeRegExp [c] @ (escapeRegExp s @ rest)"
    by (simp add: escapeRegExp_Cons escapeRegExp_Nil)
  then show ?case
    using Cons.IH by (simp add: compile_escape_Cons option.map_comp comp_def)
qed

lemma compile_escape_all: "compileRegExp (escapeRegExp s) = Some (map Literal s)"
  using compile_escape[of s "[]"] by simp

lemma compile_anyplus:
  "compileRegExp (''.+'' @ rest) = map_option ((#) AnyPlus) (compileRegExp rest)"
  by (simp add: backslash_neq)

lemma compile_wildcardSource:
  "compileRegExp (wildcardSource str) =
     Some (case splitStar (trim str) of
             None \<Rightarrow> map Literal (trim str)
           | Some (pre, post) \<Rightarrow> map Literal pre @ AnyPlus # map Literal post)"
proof (cases "splitStar (trim str)")
  case None
  then show ?thesis
    by (simp add: wildcardSource_def replaceFirst_escape compile_escape_all)
next
  case (Some a)
  obtain pre post where a: "a = (pre, post)" by (cases a)
  have "compileRegExp (escapeRegExp pre @ ''.+'' @ escapeRegExp post) =
      Some (map Literal pre @ AnyPlus # map Literal post)"
    by (simp only: compile_escape compile_anyplus compile_escape_all) simp
  then show ?thesis
    using Some a by (simp add: wildcardSource_def replaceFirst_escape)
qed

lemma match_literals:
  "matchTerms (map Literal a @ ts) s \<longleftrightarrow>
     length a \<le> length s \<and> take (length a) s = a \<and> matchTerms ts (drop (length a) s)"
proof (induction a arbitrary: s)
  case Nil
  then show ?case by simp
next
  case (Cons c a)
  then show ?case by (cases s) auto
qed

lemma match_all_literals: "matchTerms (map Literal a) s \<longleftrightarrow> s = a"
proof (induction a arbitrary: s)
  case Nil
  then show ?case by (cases s) simp_all
next
  case (Cons c a)
  then show ?case by (cases s) auto
qed

lemma match_anyplus:
  "matchTerms (AnyPlus # map Literal b) s \<longleftrightarrow>
     length b < length s \<and> drop (length s - length b) s = b
     \<and> list_all notLineTerminator (take (length s - length b) s)"
proof (induction s)
  case Nil
  then show ?case by simp
next
  case (Cons x xs)
  have step: "matchTerms (AnyPlus # map Literal b) (x # xs) \<longleftrightarrow>
      notLineTerminator x \<and> (matchTerms (AnyPlus # map Literal b) xs \<or> xs = b)"
    by (simp add: match_all_literals notLineTerminator_def)
  consider "length b < length xs" | "length b = length xs" | "length xs < length b"
    by linarith
  then show ?case
  proof cases
    case 1
    then have k: "Suc (length xs) - length b = Suc (length xs - length b)" by simp
    have "xs \<noteq> b" using 1 by auto
    then show ?thesis
      unfolding step Cons.IH using 1 by (auto simp: k)
  next
    case 2
    then show ?thesis
      unfolding step Cons.IH by auto
  next
    case 3
    then have "xs \<noteq> b" by auto
    then show ?thesis
      unfolding step Cons.IH using 3 by auto
  qed
qed

lemma anchoredMatch_wildcard:
  "anchoredMatch (wildcardSource str) d = specEntryMatches notLineTerminator (trim str) d"
proof (cases "splitStar (trim str)")
  case None
  then show ?thesis
    by (simp add: anchoredMatch_def compile_wildcardSource specEntryMatches_def match_all_literals)
next
  case (Some a)
  obtain pre post where a: "a = (pre, post)" by (cases a)
  have "matchTerms (map Literal pre @ AnyPlus # map Literal post) d \<longleftrightarrow>
      length pre + length post < length d
      \<and> take (length pre) d = pre
      \<and> drop (length d - length post) d = post
      \<and> list_all notLineTerminator (take (length d - length pre - length post) (drop (length pre) d))"
  proof (cases "length pre + length post < length d")
    case True
    then have "length d - length pre - length post + length pre = length d - length post"
      by simp
    then show ?thesis
      using True by (auto simp: match_literals match_anyplus)
  next
    case False
    then show ?thesis
      by (auto simp: match_literals match_anyplus)
  qed
  then show ?thesis
    using Some a
    by (simp add: anchoredMatch_def compile_wildcardSource specEntryMatches_def)
qed

lemma domainAllowed_spec:
  "domainAllowed allowed domain = specDomainAllowed notLineTerminator allowed (orEmpty domain)"
  by (simp add: domainAllowed_def specDomainAllowed_def anchoredMatch_wildcard list_ex_iff)

lemma bitbucketUnsupported_neq_unsupportedDomain:
  "outputHTML (bitbucketUnsupported p) env \<noteq> outputHTML (unsupportedDomain p) env"
proof
  assume "outputHTML (bitbucketUnsupported p) env = outputHTML (unsupportedDomain p) env"
  then have "body (outputHTML (bitbucketUnsupported p) env) = body (outputHTML (unsupportedDomain p) env)"
    by simp
  then have "JSON_stringify (ContentError p ''Bitbucket OAuth is not yet supported.'' (Some ''UNSUPPORTED_BACKEND''))
     = JSON_stringify (ContentError p ''Your domain is not allowed to use the authenticator.'' (Some ''UNSUPPORTED_DOMAIN''))"
    unfolding bitbucketUnsupported_def unsupportedDomain_def
    by (simp only: body_error_page list.distinct not_False_eq_True) (rule page_json_inject)
  then show False by (simp add: json_defs)
qed

lemma authorize_neq_unsupportedDomain:
  assumes "arrayIncludes supportedProviders p"
  shows "authorize request env p p uuid \<noteq> Inr (outputHTML (unsupportedDomain p) env)"
proof -
  have redirect: "newResponse [] 302 [(''Location'', url), (''Set-Cookie'', issueCookie p t)]
      \<noteq> Inr (outputHTML (unsupportedDomain p) env)" for url t
  proof
    assume a: "newResponse [] 302 [(''Location'', url), (''Set-Cookie'', issueCookie p t)]
      = Inr (outputHTML (unsupportedDomain p) env)"
    then have "status (outputHTML (unsupportedDomain p) env) = 302"
      using newResponse_redirect_cases[of url p t] by auto
    then show False by (simp add: status_outputHTML)
  qed
  have mis: "outputHTML (misconfiguredClient p) env \<noteq> outputHTML (unsupportedDomain p) env"
    using pages_neq_misconfigured(1)[of p env] by auto
  from assms consider "p = ''github''" | "p = ''gitlab''" | "p = ''bitbucket''"
    unfolding supported_cases by blast
  then show ?thesis
  proof cases
    case 1
    then show ?thesis using redirect mis by (simp add: authorize_github)
  next
    case 2
    then show ?thesis using redirect mis by (simp add: authorize_gitlab)
  next
    case 3
    then show ?thesis
      using bitbucketUnsupported_neq_unsupportedDomain by (simp add: authorize_bitbucket)
  qed
qed

text \<open>
  Claim C5, amended. For a request with a known provider: when a non-empty
  allow-list is configured, the request goes on if and only if the target domain
  (the empty string when \<open>site_id\<close> is absent) matches at least one entry, and gets
  the \<open>UNSUPPORTED_DOMAIN\<close> page otherwise. The entries are the comma-separated
  pieces of the list, each trimmed of surrounding white space; an entry matches as a
  literal string anchored at both ends, except that its first \<open>*\<close> stands for one or
  more characters none of which is a line terminator. An empty or unset allow-list
  lets every domain through.
\<close>

theorem allow_list_check:
  assumes "searchGet request ''provider'' = Some p"
    and "arrayIncludes supportedProviders p"
  shows "handleAuth request env uuid =
      (if \<not> truthy (ALLOWED_DOMAINS env)
          \<or> specDomainAllowed notLineTerminator (orEmpty (ALLOWED_DOMAINS env))
               (orEmpty (searchGet request ''site_id''))
       then authorize request env p p uuid
       else Inr (outputHTML (unsupportedDomain p) env))
    \<and> authorize request env p p uuid \<noteq> Inr (outputHTML (unsupportedDomain p) env)
    \<and> outputContent (unsupportedDomain p) =
        ContentError p ''Your domain is not allowed to use the authenticator.''
          (Some ''UNSUPPORTED_DOMAIN'')"
proof (intro conjI)
  show "handleAuth request env uuid =
      (if \<not> truthy (ALLOWED_DOMAINS env)
          \<or> specDomainAllowed notLineTerminator (orEmpty (ALLOWED_DOMAINS env))
               (orEmpty (searchGet request ''site_id''))
       then authorize request env p p uuid
       else Inr (outputHTML (unsupportedDomain p) env))"
    using assms by (simp add: handleAuth_unfold domainAllowed_spec)
  show "authorize request env p p uuid \<noteq> Inr (outputHTML (unsupportedDomain p) env)"
    using assms(2) by (rule authorize_neq_unsupportedDomain)
  show "outputContent (unsupportedDomain p) =
        ContentError p ''Your domain is not allowed to use the authenticator.''
          (Some ''UNSUPPORTED_DOMAIN'')"
    by (simp add: unsupportedDomain_def outputContent_error)
qed

theorem allow_list_check_witness:
  "handleAuth (authRequest [(''provider'', ''github''), (''site_id'', ''evil.com'')]) localEnv sampleUUID
     = Inr (outputHTML (unsupportedDomain ''github'') localEnv)
   \<and> handleAuth (authRequest [(''provider'', ''github''), (''site_id'', ''a.example.com'')]) localEnv sampleUUID
     = authorize (authRequest [(''provider'', ''github''), (''site_id'', ''a.example.com'')]) localEnv
         ''github'' ''github'' sampleUUID
   \<and> handleAuth (authRequest [(''provider'', ''github''), (''site_id'', ''a.example.com'')]) localEnv sampleUUID
     \<noteq> Inr (outputHTML (unsupportedDomain ''github'') localEnv)"
proof -
  let ?r1 = "authRequest [(''provider'', ''github''), (''site_id'', ''evil.com'')]"
  let ?r2 = "authRequest [(''provider'', ''github''), (''site_id'', ''a.example.com'')]"
  have p: "searchGet ?r1 ''provider'' = Some ''github''" "searchGet ?r2 ''provider'' = Some ''github''"
    by (simp_all add: authRequest_def searchGet_def)
  have g: "arrayIncludes supportedProviders ''github''"
    by (simp add: supported_cases)
  have a: "truthy (ALLOWED_DOMAINS localEnv)"
    by (simp add: localEnv_def truthy_def)
  have d1: "\<not> specDomainAllowed notLineTerminator (orEmpty (ALLOWED_DOMAINS localEnv))
               (orEmpty (searchGet ?r1 ''site_id''))"
    by code_simp
  have d2: "specDomainAllowed notLineTerminator (orEmpty (ALLOWED_DOMAINS localEnv))
               (orEmpty (searchGet ?r2 ''site_id''))"
    by code_simp
  from allow_list_check[OF p(1) g, of localEnv sampleUUID] allow_list_check[OF p(2) g, of localEnv sampleUUID]
    a d1 d2
  show ?thesis by simp
qed

theorem line_terminator_domain_counterexample:
  "specDomainAllowed anyChar ''*.example.com'' (''a'' @ [CHR 0x0A] @ ''.example.com'')
   \<and> handleAuth (authRequest [(''provider'', ''github''), (''site_id'', ''a'' @ [CHR 0x0A] @ ''.example.com'')])
        localEnv sampleUUID
     = Inr (outputHTML (unsupportedDomain ''github'') localEnv)
   \<and> handleAuth (authRequest [(''provider'', ''github''), (''site_id'', ''a'' @ [CHR 0x0A] @ ''.example.com'')])
        localEnv sampleUUID
     \<noteq> authorize (authRequest [(''provider'', ''github''), (''site_id'', ''a'' @ [CHR 0x0A] @ ''.example.com'')])
         localEnv ''github'' ''github'' sampleUUID"
proof -
  let ?r = "authRequest [(''provider'', ''github''), (''site_id'', ''a'' @ [CHR 0x0A] @ ''.example.com'')]"
  have s: "specDomainAllowed anyChar ''*.example.com'' (''a'' @ [CHR 0x0A] @ ''.example.com'')"
    by code_simp
  have p: "searchGet ?r ''provider'' = Some ''github''"
    by (simp add: authRequest_def searchGet_def)
  have g: "arrayIncludes supportedProviders ''github''"
    by (simp add: supported_cases)
  have a: "truthy (ALLOWED_DOMAINS localEnv)"
    by (simp add: localEnv_def truthy_def)
  have d: "\<not> domainAllowed (orEmpty (ALLOWED_DOMAINS localEnv)) (searchGet ?r ''site_id'')"
    by code_simp
  have h: "handleAuth ?r localEnv sampleUUID = Inr (outputHTML (unsupportedDomain ''github'') localEnv)"
    using p g a d by (simp add: handleAuth_unfold)
  show ?thesis
    using s h authorize_neq_unsupportedDomain[OF g, of ?r localEnv sampleUUID] by simp
qed

end
